theory Spec2Isabelle
  imports Main
begin

section \<open>Python values used by decorana.py\<close>

text \<open>
  Python strings are modelled as \<open>string\<close>; a \<open>char\<close> stands for one code point
  below 256.  The exceptions that the module can raise are values of \<open>error\<close>:
  \<open>Exception msg\<close> is the plain \<^verbatim>\<open>raise Exception(msg)\<close> of the module, the other
  constructors are the built-in exceptions raised by indexing, by \<^verbatim>\<open>os.remove\<close> and
  by opening a file that does not exist, and the \<^verbatim>\<open>ValueError\<close> of a library call.
\<close>

datatype error = Exception string | IndexError | FileNotFoundError string | ValueError string

text \<open>\<^verbatim>\<open>str.isspace\<close> on the code points below 256.\<close>

definition is_space :: "char \<Rightarrow> bool" where
  "is_space c \<longleftrightarrow> c \<in> set [CHR 0x09, CHR 0x0A, CHR 0x0B, CHR 0x0C, CHR 0x0D,
      CHR 0x1C, CHR 0x1D, CHR 0x1E, CHR 0x1F, CHR 0x20, CHR 0x85, CHR 0xA0]"

text \<open>
  \<^verbatim>\<open>name.split()\<close>: the maximal runs of non-whitespace characters, in order.  The
  second argument is the token read so far.
\<close>

fun split_from :: "string \<Rightarrow> string \<Rightarrow> string list" where
  "split_from [] cur = (if cur = [] then [] else [cur])"
| "split_from (c # cs) cur =
     (if is_space c then (if cur = [] then split_from cs [] else cur # split_from cs [])
      else split_from cs (cur @ [c]))"

definition split :: "string \<Rightarrow> string list" where
  "split name = split_from name []"

text \<open>\<^verbatim>\<open>s.rstrip('.')\<close>\<close>

definition rstrip_dot :: "string \<Rightarrow> string" where
  "rstrip_dot s = rev (dropWhile (\<lambda>c. c = CHR ''.'') (rev s))"

text \<open>\<^verbatim>\<open>str(n)\<close> for an integer.\<close>

fun str_nat :: "nat \<Rightarrow> string" where
  "str_nat n = (if n < 10 then [''0123456789'' ! n] else str_nat (n div 10) @ [''0123456789'' ! (n mod 10)])"

declare str_nat.simps [simp del]

definition str_int :: "int \<Rightarrow> string" where
  "str_int i = (if i < 0 then CHR ''-'' # str_nat (nat (- i)) else str_nat (nat i))"

section \<open>\<^verbatim>\<open>__make_cepnames\<close>\<close>

text \<open>
  The body of the loop up to the assignment of \<^verbatim>\<open>cepstr\<close> (lines 262-268).
  \<^verbatim>\<open>name.split()[0]\<close> raises \<open>IndexError\<close> on a name without a token; the
  \<^verbatim>\<open>IndexError\<close> of \<^verbatim>\<open>name.split()[n - 1]\<close> is caught and replaced by \<open>str1\<close>.
\<close>

definition cepstr :: "bool \<Rightarrow> string \<Rightarrow> error + string" where
  "cepstr seconditem name =
     (let n = (if \<not> seconditem then length (split name) else 2) in
      case split name of
        [] \<Rightarrow> Inl IndexError
      | str1 # _ \<Rightarrow>
          let str2 = (if n - 1 < length (split name) then split name ! (n - 1) else str1)
          in Inr (if str1 \<noteq> str2 then take 4 str1 @ rstrip_dot (take 4 str2) else take 8 str1))"

text \<open>
  The loop over \<^verbatim>\<open>names\<close> with its two variables \<^verbatim>\<open>count\<close> and \<^verbatim>\<open>cepnames\<close>
  (lines 261-273).
\<close>

fun cepnames_loop :: "bool \<Rightarrow> string list \<Rightarrow> nat \<Rightarrow> string list \<Rightarrow> error + string list" where
  "cepnames_loop seconditem [] count cepnames = Inr cepnames"
| "cepnames_loop seconditem (name # names) count cepnames =
     (case cepstr seconditem name of
        Inl e \<Rightarrow> Inl e
      | Inr s \<Rightarrow>
          if s \<notin> set cepnames then cepnames_loop seconditem names count (cepnames @ [s])
          else cepnames_loop seconditem names (count + 1) (cepnames @ [take 7 s @ str_nat count]))"

definition make_cepnames :: "string list \<Rightarrow> bool \<Rightarrow> error + string list" where
  "make_cepnames names seconditem = cepnames_loop seconditem names 1 []"

section \<open>The data frame, the configuration and the world outside the interpreter\<close>

text \<open>
  A row label of the data frame is a Python string or a Python integer;
  \<open>py_str\<close> is \<^verbatim>\<open>str(m)\<close>.
\<close>

datatype label = LStr string | LInt int

fun py_str :: "label \<Rightarrow> string" where
  "py_str (LStr s) = s"
| "py_str (LInt i) = str_int i"

text \<open>
  The part of a \<^verbatim>\<open>pandas.DataFrame\<close> that the module reads: \<^verbatim>\<open>data.index\<close>,
  \<^verbatim>\<open>data.columns\<close> (column names are Python strings) and \<^verbatim>\<open>data.iloc[i, j]\<close>.
  \<^verbatim>\<open>data.shape\<close> is \<open>(length (df_index data), length (df_columns data))\<close>.  The type
  \<open>'v\<close> of the entries is left open.
\<close>

record 'v dataframe =
  df_index :: "label list"
  df_columns :: "string list"
  df_iloc :: "nat \<Rightarrow> nat \<Rightarrow> 'v"

text \<open>The keyword arguments of \<^verbatim>\<open>decorana\<close>.\<close>

record config =
  iweight :: int
  iresc :: int
  ira :: int
  mk :: int
  short :: int

text \<open>
  The files of the current working directory, by name.  A file holds text.
\<close>

type_synonym files = "string \<rightharpoonup> string"

text \<open>
  What the module takes from the operating system and from its libraries:
  \<^item> \<open>which\<close> is \<^verbatim>\<open>shutil.which\<close>, \<open>getcwd\<close> is \<^verbatim>\<open>os.getcwd()\<close>;
  \<^item> \<open>subprocess\<close> is the effect of \<^verbatim>\<open>subprocess.run\<close> on the files of the working
    directory, with the return code of the process;
  \<^item> \<open>ne_zero x\<close> is \<^verbatim>\<open>x != 0\<close> and \<open>fmt_3_0f x\<close> is \<^verbatim>\<open>"%3.0f" % x\<close> on an entry;
  \<^item> \<open>genfromtxt ls n\<close> is \<^verbatim>\<open>np.genfromtxt(ls, usecols=(0, 1, 2, 3), max_rows=n)\<close> on
    the lines \<open>ls\<close>; the result is an array of type \<open>'m\<close>.
\<close>

record ('v, 'm) env =
  which :: "string \<Rightarrow> string option"
  getcwd :: string
  subprocess :: "string list \<Rightarrow> files \<Rightarrow> int \<times> files"
  ne_zero :: "'v \<Rightarrow> bool"
  fmt_3_0f :: "'v \<Rightarrow> string"
  genfromtxt :: "string list \<Rightarrow> nat \<Rightarrow> error + 'm"

text \<open>
  The state a call of \<^verbatim>\<open>decorana\<close> runs in: the files of the working directory,
  the processes started so far (their command lines, oldest first) and the
  caller's data frame object.
\<close>

record 'v world =
  files :: files
  procs :: "string list list"
  frame :: "'v dataframe"

text \<open>
  A statement of the module is a function from the world to a result and the world
  after it; a raised exception is the result \<open>Inl e\<close>, with the world as it was
  when the exception was raised.
\<close>

type_synonym ('a, 'v) io = "'v world \<Rightarrow> (error + 'a) \<times> 'v world"

definition return :: "'a \<Rightarrow> ('a, 'v) io" where
  "return x = (\<lambda>w. (Inr x, w))"

definition raise :: "error \<Rightarrow> ('a, 'v) io" where
  "raise e = (\<lambda>w. (Inl e, w))"

definition and_then :: "('a, 'v) io \<Rightarrow> ('a \<Rightarrow> ('b, 'v) io) \<Rightarrow> ('b, 'v) io" where
  "and_then m f = (\<lambda>w. case m w of (Inl e, w') \<Rightarrow> (Inl e, w') | (Inr x, w') \<Rightarrow> f x w')"

definition lift :: "error + 'a \<Rightarrow> ('a, 'v) io" where
  "lift r = (\<lambda>w. (r, w))"

definition get_frame :: "('v dataframe, 'v) io" where
  "get_frame = (\<lambda>w. (Inr (frame w), w))"

text \<open>\<^verbatim>\<open>with open(p, 'w') as f: f.write(content)\<close>\<close>

definition write_text :: "string \<Rightarrow> string \<Rightarrow> (unit, 'v) io" where
  "write_text p content = (\<lambda>w. (Inr (), w\<lparr>files := (files w)(p \<mapsto> content)\<rparr>))"

text \<open>\<^verbatim>\<open>os.remove(p)\<close>\<close>

definition os_remove :: "string \<Rightarrow> (unit, 'v) io" where
  "os_remove p = (\<lambda>w. if files w p \<noteq> None then (Inr (), w\<lparr>files := (files w)(p := None)\<rparr>)
                       else (Inl (FileNotFoundError p), w))"

text \<open>
  Reading a text file line by line: a carriage return followed by a line feed, and a
  carriage return alone, are read as one line feed, and every line keeps its line feed.
\<close>

fun universal_newlines :: "string \<Rightarrow> string" where
  "universal_newlines [] = []"
| "universal_newlines [c] = (if c = CHR 0x0D then [CHR ''\<newline>''] else [c])"
| "universal_newlines (c # d # cs) =
     (if c = CHR 0x0D then
        (if d = CHR ''\<newline>'' then CHR ''\<newline>'' # universal_newlines cs
         else CHR ''\<newline>'' # universal_newlines (d # cs))
      else c # universal_newlines (d # cs))"

fun lines_from :: "string \<Rightarrow> string \<Rightarrow> string list" where
  "lines_from [] cur = (if cur = [] then [] else [cur])"
| "lines_from (c # cs) cur =
     (if c = CHR ''\<newline>'' then (cur @ [c]) # lines_from cs [] else lines_from cs (cur @ [c]))"

definition readlines :: "string \<Rightarrow> (string list, 'v) io" where
  "readlines p = (\<lambda>w. case files w p of
                        None \<Rightarrow> (Inl (FileNotFoundError p), w)
                      | Some content \<Rightarrow> (Inr (lines_from (universal_newlines content) []), w))"

text \<open>
  \<^verbatim>\<open>subprocess.run(argv)\<close>: the process is started, it changes the files, and its
  return code is handed back.
\<close>

definition subprocess_run :: "('v, 'm) env \<Rightarrow> string list \<Rightarrow> (int, 'v) io" where
  "subprocess_run env argv =
     (\<lambda>w. case subprocess env argv (files w) of
             (returncode, fs) \<Rightarrow> (Inr returncode, w\<lparr>files := fs, procs := procs w @ [argv]\<rparr>))"

text \<open>\<^verbatim>\<open>Path(cwd) / name\<close>, printed.\<close>

definition path_div :: "string \<Rightarrow> string \<Rightarrow> string" where
  "path_div cwd name = (if cwd = ''/'' then cwd @ name else cwd @ ''/'' @ name)"

section \<open>\<^verbatim>\<open>__compile_fortran\<close>\<close>

definition compile_fortran :: "('v, 'm) env \<Rightarrow> string \<Rightarrow> (string, 'v) io" where
  "compile_fortran env path =
     (case which env ''gfortran'' of
        Some compiler \<Rightarrow>
          (let cwd = getcwd env;
               executable_path = path_div cwd ''decorana.exe''
           in and_then (subprocess_run env [compiler, ''-o'', executable_path, path]) (\<lambda>returncode.
                if returncode = 0 then return executable_path
                else raise (Exception (''Compilation of '' @ path @ '' failed!''))))
      | None \<Rightarrow> raise (Exception ''GNU Fortran compiler is not installed!''))"

section \<open>\<^verbatim>\<open>__write_cep\<close>\<close>

definition rjust :: "nat \<Rightarrow> string \<Rightarrow> string" where
  "rjust n s = replicate (n - length s) CHR '' '' @ s"

definition ljust :: "nat \<Rightarrow> string \<Rightarrow> string" where
  "ljust n s = s @ replicate (n - length s) CHR '' ''"

text \<open>\<^verbatim>\<open>"%3d" % i\<close>\<close>

definition fmt_3d :: "int \<Rightarrow> string" where
  "fmt_3d i = rjust 3 (str_int i)"

text \<open>
  The loop over \<^verbatim>\<open>j\<close> (lines 210-221) for row \<open>i\<close>; its state is
  \<^verbatim>\<open>number_written\<close>, \<^verbatim>\<open>row_number_written\<close> and the text written so far.
\<close>

fun cep_row_loop ::
  "('v, 'm) env \<Rightarrow> 'v dataframe \<Rightarrow> nat \<Rightarrow> nat list \<Rightarrow> nat \<times> bool \<times> string \<Rightarrow> nat \<times> bool \<times> string" where
  "cep_row_loop env data i [] st = st"
| "cep_row_loop env data i (j # js) (number_written, row_number_written, out) =
     (if ne_zero env (df_iloc data i j) then
        (let out1 = (if \<not> row_number_written then out @ fmt_3d (int i + 1) else out);
             out2 = out1 @ fmt_3d (int j + 1) @ fmt_3_0f env (df_iloc data i j)
         in if number_written + 1 = 5 then cep_row_loop env data i js (0, False, out2 @ ''\<newline>'')
            else cep_row_loop env data i js (number_written + 1, True, out2))
      else cep_row_loop env data i js (number_written, row_number_written, out))"

text \<open>The body of the loop over \<^verbatim>\<open>i\<close> (lines 208-223): what is written for row \<open>i\<close>.\<close>

definition cep_row :: "('v, 'm) env \<Rightarrow> 'v dataframe \<Rightarrow> nat \<Rightarrow> string" where
  "cep_row env data i =
     (case cep_row_loop env data i [0..<length (df_columns data)] (0, False, []) of
        (number_written, row_number_written, out) \<Rightarrow>
          if number_written \<noteq> 0 then out @ ''\<newline>'' else out)"

text \<open>Everything written to \<^verbatim>\<open>cep.dat\<close> (lines 199-231).\<close>

definition cep_dat :: "('v, 'm) env \<Rightarrow> 'v dataframe \<Rightarrow> label list \<Rightarrow> string list \<Rightarrow> string" where
  "cep_dat env data row_lab col_lab =
     ''dummy title\<newline>'' @ ''(I3,5(I3,F3.0))\<newline>'' @ (fmt_3d 5 @ '' \<newline>'') @
     concat (map (cep_row env data) [0..<length (df_index data)]) @
     (fmt_3d 0 @ '' \<newline>'') @
     concat (map (\<lambda>(j, m). m @ (if j mod 10 = 0 then ''\<newline>'' else []))
                 (zip [1..<Suc (length col_lab)] col_lab)) @
     ''\<newline>'' @
     concat (map (\<lambda>(i, m). ljust 8 (py_str m) @ (if i mod 10 = 0 then ''\<newline>'' else []))
                 (zip [1..<Suc (length row_lab)] row_lab))"

definition write_cep :: "('v, 'm) env \<Rightarrow> (nat \<times> nat \<times> label list \<times> string list, 'v) io" where
  "write_cep env =
     and_then get_frame (\<lambda>data.
       let rows = length (df_index data);
           columns = length (df_columns data);
           row_lab = df_index data
       in and_then (lift (make_cepnames (df_columns data) False)) (\<lambda>col_lab.
          and_then (write_text ''cep.dat'' (cep_dat env data row_lab col_lab)) (\<lambda>_.
          return (rows, columns, row_lab, col_lab))))"

section \<open>\<^verbatim>\<open>decorana\<close>\<close>

text \<open>The text written to \<^verbatim>\<open>params.dat\<close> (lines 41-51).\<close>

definition params_dat :: "config \<Rightarrow> string" where
  "params_dat cfg =
     ''cep.dat\<newline>        -1\<newline>        0\<newline>        '' @ str_int (iweight cfg) @
     ''\<newline>        '' @ str_int (iresc cfg) @
     ''\<newline>        '' @ str_int (ira cfg) @
     ''\<newline>        '' @ str_int (mk cfg) @
     ''\<newline>        '' @ str_int (short cfg) @
     ''\<newline>        1\<newline>        0\<newline>        ''"

definition decorana ::
  "('v, 'm) env \<Rightarrow> config \<Rightarrow> ('m \<times> 'm \<times> label list \<times> string list, 'v) io" where
  "decorana env cfg =
     and_then (compile_fortran env ''decorana.f'') (\<lambda>executable_path.
     and_then (write_cep env) (\<lambda>(nrows, ncols, row_lab, col_lab).
     and_then (write_text ''params.dat'' (params_dat cfg)) (\<lambda>_.
     and_then (subprocess_run env [executable_path @ '' < params.dat'']) (\<lambda>returncode.
     and_then (if returncode \<noteq> 0
               then raise (Exception (''decorana.exe exited with code '' @ str_int returncode @ ''!''))
               else return ()) (\<lambda>_.
     and_then (os_remove ''decorana.exe'') (\<lambda>_.
     and_then (os_remove ''cep.dat'') (\<lambda>_.
     and_then (os_remove ''params.dat'') (\<lambda>_.
     and_then (readlines ''decorana.out'') (\<lambda>ls.
     and_then (lift (genfromtxt env ls nrows)) (\<lambda>site_scores.
     and_then (readlines ''decorana.out'') (\<lambda>ls'.
     and_then (lift (genfromtxt env (map (drop 41) ls') ncols)) (\<lambda>species_scores.
     and_then (os_remove ''decorana.out'') (\<lambda>_.
     and_then (os_remove ''decorana.prt'') (\<lambda>_.
     return (site_scores, species_scores, row_lab, col_lab)))))))))))))))"

section \<open>An example run\<close>

text \<open>
  A machine with a Fortran compiler, whose compiler succeeds when \<^verbatim>\<open>decorana.f\<close> is in
  the working directory and whose compiled program writes its two output files; a
  data frame of two sites and three species whose second row and second column are
  all zero; a configuration with a negative number of segments; a working directory
  that holds the Fortran source and a file of the user called \<^verbatim>\<open>params.dat\<close>.
\<close>

definition example_env :: "(int, string list) env" where
  "example_env =
     \<lparr>which = (\<lambda>cmd. if cmd = ''gfortran'' then Some ''/usr/bin/gfortran'' else None),
      getcwd = ''/home/u'',
      subprocess = (\<lambda>argv fs.
        if argv = [''/usr/bin/gfortran'', ''-o'', ''/home/u/decorana.exe'', ''decorana.f'']
        then (if fs ''decorana.f'' \<noteq> None then (0, fs(''decorana.exe'' \<mapsto> ''binary'')) else (1, fs))
        else if argv = [''/home/u/decorana.exe < params.dat'']
        then (0, fs(''decorana.out'' \<mapsto> ''1 2 3 4\<newline>5 6 7 8\<newline>'', ''decorana.prt'' \<mapsto> ''done''))
        else (127, fs)),
      ne_zero = (\<lambda>x. x \<noteq> 0),
      fmt_3_0f = (\<lambda>x. rjust 3 (str_int x)),
      genfromtxt = (\<lambda>ls n. Inr (take n ls))\<rparr>"

definition example_frame :: "int dataframe" where
  "example_frame =
     \<lparr>df_index = [LStr ''site1'', LInt 2],
      df_columns = [''Bellis perennis'', ''Poa sp.'', ''Carex nigra''],
      df_iloc = (\<lambda>i j. [[3, 0, 1], [0, 0, 0]] ! i ! j)\<rparr>"

definition example_config :: config where
  "example_config = \<lparr>iweight = 0, iresc = 0, ira = 0, mk = - 3, short = 0\<rparr>"

definition example_world :: "int world" where
  "example_world =
     \<lparr>files = [''decorana.f'' \<mapsto> ''      PROGRAM DECORANA'', ''params.dat'' \<mapsto> ''notes''],
      procs = [],
      frame = example_frame\<rparr>"

text \<open>
  The same machine without a Fortran compiler, the same machine with a compiled program
  that exits with code 2, and the same call in an empty working directory.
\<close>

definition no_compiler_env :: "(int, string list) env" where
  "no_compiler_env = example_env\<lparr>which := (\<lambda>cmd. None)\<rparr>"

definition crashing_env :: "(int, string list) env" where
  "crashing_env =
     example_env\<lparr>subprocess := (\<lambda>argv fs.
        if argv = [''/usr/bin/gfortran'', ''-o'', ''/home/u/decorana.exe'', ''decorana.f'']
        then (0, fs(''decorana.exe'' \<mapsto> ''binary'')) else (2, fs))\<rparr>"

definition empty_world :: "int world" where
  "empty_world = example_world\<lparr>files := Map.empty\<rparr>"

text \<open>The example data frame in another working directory, after another process.\<close>

definition other_world :: "int world" where
  "other_world =
     \<lparr>files = [''decorana.f'' \<mapsto> ''      PROGRAM DECORANA'', ''field notes.txt'' \<mapsto> ''rain''],
      procs = [[''ls'']],
      frame = example_frame\<rparr>"

section \<open>Runs in which the compiled program leaves its output\<close>

text \<open>
  \<open>leaves_output env cfg w out\<close>: from the world \<open>w\<close> the compiler is found and exits
  with code 0, the column names can be abbreviated, and the compiled program, started
  in the working directory that then holds \<^verbatim>\<open>cep.dat\<close> and \<^verbatim>\<open>params.dat\<close>, exits with
  code 0 and leaves the five files that \<^verbatim>\<open>decorana\<close> removes, with the text \<open>out\<close> in
  \<^verbatim>\<open>decorana.out\<close>.
\<close>

definition leaves_output :: "('v, 'm) env \<Rightarrow> config \<Rightarrow> 'v world \<Rightarrow> string \<Rightarrow> bool" where
  "leaves_output env cfg w out =
     (case which env ''gfortran'' of
        None \<Rightarrow> False
      | Some compiler \<Rightarrow>
         (case subprocess env [compiler, ''-o'', path_div (getcwd env) ''decorana.exe'', ''decorana.f'']
                 (files w) of
            (returncode, fs1) \<Rightarrow>
              returncode = 0 \<and>
              (case make_cepnames (df_columns (frame w)) False of
                 Inl e \<Rightarrow> False
               | Inr col_lab \<Rightarrow>
                  (case subprocess env [path_div (getcwd env) ''decorana.exe'' @ '' < params.dat'']
                          (fs1(''cep.dat'' \<mapsto> cep_dat env (frame w) (df_index (frame w)) col_lab,
                               ''params.dat'' \<mapsto> params_dat cfg)) of
                     (returncode', fs) \<Rightarrow>
                       returncode' = 0 \<and>
                       fs ''decorana.exe'' \<noteq> None \<and> fs ''cep.dat'' \<noteq> None \<and>
                       fs ''params.dat'' \<noteq> None \<and> fs ''decorana.out'' = Some out \<and>
                       fs ''decorana.prt'' \<noteq> None))))"

section \<open>Properties of \<^verbatim>\<open>__make_cepnames\<close>\<close>

lemma length_rstrip_dot: "length (rstrip_dot s) \<le> length s"
  by (simp add: rstrip_dot_def) (metis length_dropWhile_le length_rev)

lemma cepstr_Inr_iff: "(\<exists>b. cepstr seconditem name = Inr b) \<longleftrightarrow> split name \<noteq> []"
  by (auto simp: cepstr_def Let_def split: list.splits)

lemma cepstr_Inl: "cepstr seconditem name = Inl e \<Longrightarrow> e = IndexError \<and> split name = []"
  by (auto simp: cepstr_def Let_def split: list.splits)

lemma cepstr_formation:
  "split name \<noteq> [] \<Longrightarrow>
   cepstr seconditem name = Inr
     (let str1 = hd (split name);
          str2 = (if seconditem then (if 2 \<le> length (split name) then split name ! 1 else str1)
                  else last (split name))
      in if str1 \<noteq> str2 then take 4 str1 @ rstrip_dot (take 4 str2) else take 8 str1)"
  by (cases "split name") (auto simp: cepstr_def Let_def last_conv_nth Suc_le_eq)

lemma cepstr_length: "cepstr seconditem name = Inr b \<Longrightarrow> length b \<le> 8"
proof -
  assume a: "cepstr seconditem name = Inr b"
  have l: "length (take 4 s @ rstrip_dot (take 4 t)) \<le> 8" for s t :: string
    using length_rstrip_dot [of "take 4 t"] by (simp add: min_def split: if_splits)
  from a have "split name \<noteq> []" using cepstr_Inr_iff by blast
  from cepstr_formation [OF this, of seconditem] a
  obtain s t where "b = (if s \<noteq> t then take 4 s @ rstrip_dot (take 4 t) else take 8 s)"
    by (simp add: Let_def)
  then show ?thesis using l [of s t] by (simp del: length_append)
qed

lemma loop_prefix:
  "cepnames_loop seconditem names count acc = Inr out \<Longrightarrow>
   \<exists>rest. out = acc @ rest \<and> length rest = length names"
proof (induction names arbitrary: count acc)
  case Nil
  then show ?case by simp
next
  case (Cons name names)
  then show ?case
    by (fastforce split: sum.splits if_splits)
qed

lemma loop_Inr_iff:
  "(\<exists>out. cepnames_loop seconditem names count acc = Inr out) \<longleftrightarrow> (\<forall>n \<in> set names. split n \<noteq> [])"
proof (induction names arbitrary: count acc)
  case Nil
  then show ?case by simp
next
  case (Cons name names)
  show ?case
  proof (cases "cepstr seconditem name")
    case (Inl e)
    then show ?thesis using cepstr_Inl [OF Inl] by simp
  next
    case (Inr b)
    then have "split name \<noteq> []" using cepstr_Inr_iff by blast
    then show ?thesis using Inr Cons.IH by simp
  qed
qed

lemma loop_Inl:
  "cepnames_loop seconditem names count acc = Inl e \<Longrightarrow> e = IndexError"
proof (induction names arbitrary: count acc)
  case Nil
  then show ?case by simp
next
  case (Cons name names)
  then show ?case
    by (auto split: sum.splits if_splits dest: cepstr_Inl)
qed

lemma loop_nth:
  "cepnames_loop seconditem names count acc = Inr out \<Longrightarrow> i < length names \<Longrightarrow>
   \<exists>b. cepstr seconditem (names ! i) = Inr b \<and>
       (if b \<in> set (take (length acc + i) out)
        then \<exists>k\<ge>count. out ! (length acc + i) = take 7 b @ str_nat k
        else out ! (length acc + i) = b)"
proof (induction names arbitrary: count acc i)
  case Nil
  then show ?case by simp
next
  case (Cons name names)
  from Cons.prems(1) obtain b where b: "cepstr seconditem name = Inr b"
    by (auto split: sum.splits)
  define x where "x = (if b \<notin> set acc then b else take 7 b @ str_nat count)"
  define c' where "c' = (if b \<notin> set acc then count else count + 1)"
  from Cons.prems(1) b have run: "cepnames_loop seconditem names c' (acc @ [x]) = Inr out"
    by (auto simp: x_def c'_def split: if_splits)
  from loop_prefix [OF run] obtain rest where out: "out = (acc @ [x]) @ rest" by blast
  show ?case
  proof (cases i)
    case 0
    have "take (length acc) out = acc" "out ! length acc = x"
      using out by (simp_all add: nth_append)
    then show ?thesis using 0 b by (auto simp: x_def)
  next
    case (Suc j)
    then have "j < length names" using Cons.prems(2) by simp
    from Cons.IH [OF run this] obtain b' where
      "cepstr seconditem (names ! j) = Inr b'"
      "if b' \<in> set (take (length (acc @ [x]) + j) out)
        then \<exists>k\<ge>c'. out ! (length (acc @ [x]) + j) = take 7 b' @ str_nat k
        else out ! (length (acc @ [x]) + j) = b'"
      by blast
    moreover have "count \<le> c'" by (simp add: c'_def)
    ultimately show ?thesis using Suc by (auto split: if_splits intro: order_trans)
  qed
qed

text \<open>
  C5 (as amended).  Whenever \<^verbatim>\<open>__make_cepnames\<close> returns, every name has a token
  and its abbreviation \<open>b\<close> has at most 8 characters: \<open>b\<close> is the first 4 characters of
  the first token followed by the first 4 characters of the last token (of the second
  token with \<^verbatim>\<open>seconditem\<close>, of the first when there is no second) with trailing dots
  removed, or the first 8 characters of the first token when the two tokens are equal.
  The name returned is \<open>b\<close> when \<open>b\<close> is not among the names returned for the earlier
  positions; on such a collision it is the first 7 characters of \<open>b\<close> followed by a
  counter.
\<close>

theorem make_cepnames_abbreviation:
  "make_cepnames names seconditem = Inr out \<Longrightarrow> i < length names \<Longrightarrow>
   (let toks = split (names ! i);
        str1 = hd toks;
        str2 = (if seconditem then (if 2 \<le> length toks then toks ! 1 else str1) else last toks);
        b = (if str1 \<noteq> str2 then take 4 str1 @ rstrip_dot (take 4 str2) else take 8 str1)
    in toks \<noteq> [] \<and> length b \<le> 8 \<and>
       (if b \<in> set (take i out) then \<exists>k\<ge>1. out ! i = take 7 b @ str_nat k else out ! i = b))"
proof -
  assume run: "make_cepnames names seconditem = Inr out" and i: "i < length names"
  from run have loop: "cepnames_loop seconditem names 1 [] = Inr out"
    by (simp add: make_cepnames_def)
  from loop_nth [OF loop i] have "\<exists>b. cepstr seconditem (names ! i) = Inr b \<and>
      (if b \<in> set (take i out) then \<exists>k\<ge>1. out ! i = take 7 b @ str_nat k else out ! i = b)"
    by (simp cong: if_cong)
  then obtain b where
    b: "cepstr seconditem (names ! i) = Inr b" and
    o: "if b \<in> set (take i out) then \<exists>k\<ge>1. out ! i = take 7 b @ str_nat k else out ! i = b"
    by blast
  from b have toks: "split (names ! i) \<noteq> []" using cepstr_Inr_iff by blast
  from cepstr_length [OF b] have len: "length b \<le> 8" .
  let ?T = "split (names ! i)"
  let ?S = "if seconditem then (if 2 \<le> length ?T then ?T ! 1 else hd ?T) else last ?T"
  from cepstr_formation [OF toks, of seconditem] b
  have beq: "(if hd ?T \<noteq> ?S then take 4 (hd ?T) @ rstrip_dot (take 4 ?S) else take 8 (hd ?T)) = b"
    by (simp add: Let_def)
  show ?thesis
    unfolding Let_def beq using toks len o by blast
qed

text \<open>
  The theorem at the names \<^verbatim>\<open>Bellis perennis\<close>, \<^verbatim>\<open>Poa sp.\<close> and \<^verbatim>\<open>Bellis perezii\<close>:
  the third name collides with the first, the second name collides with none.
\<close>

theorem make_cepnames_abbreviation_witness:
  "make_cepnames [''Bellis perennis'', ''Poa sp.'', ''Bellis perezii''] False
     = Inr [''Bellpere'', ''Poasp'', ''Bellper1''] \<and>
   (2::nat) < length [''Bellis perennis'', ''Poa sp.'', ''Bellis perezii''] \<and>
   split ([''Bellis perennis'', ''Poa sp.'', ''Bellis perezii''] ! 2) = [''Bellis'', ''perezii''] \<and>
   ''Bellpere'' \<in> set (take 2 [''Bellpere'', ''Poasp'', ''Bellper1'']) \<and>
   (\<exists>k\<ge>1. [''Bellpere'', ''Poasp'', ''Bellper1''] ! 2 = take 7 ''Bellpere'' @ str_nat k) \<and>
   (1::nat) < length [''Bellis perennis'', ''Poa sp.'', ''Bellis perezii''] \<and>
   split ([''Bellis perennis'', ''Poa sp.'', ''Bellis perezii''] ! 1) = [''Poa'', ''sp.''] \<and>
   ''Poasp'' \<notin> set (take 1 [''Bellpere'', ''Poasp'', ''Bellper1'']) \<and>
   [''Bellpere'', ''Poasp'', ''Bellper1''] ! 1 = ''Poasp''"
proof -
  let ?names = "[''Bellis perennis'', ''Poa sp.'', ''Bellis perezii'']"
  let ?out = "[''Bellpere'', ''Poasp'', ''Bellper1'']"
  have run: "make_cepnames ?names False = Inr ?out"
    by (simp add: make_cepnames_def cepstr_def split_def is_space_def rstrip_dot_def str_nat.simps)
  have t2: "split ''Bellis perezii'' = [''Bellis'', ''perezii'']"
    and t1: "split ''Poa sp.'' = [''Poa'', ''sp.'']"
    by (simp_all add: split_def is_space_def)
  then have s2: "split (?names ! 2) = [''Bellis'', ''perezii'']"
    and s1: "split (?names ! 1) = [''Poa'', ''sp.'']"
    by simp_all
  have i2: "(2::nat) < length ?names" and i1: "(1::nat) < length ?names" by simp_all
  from make_cepnames_abbreviation [OF run i2]
  have c2: "\<exists>k\<ge>1. ?out ! 2 = take 7 ''Bellpere'' @ str_nat k"
    by (simp add: t2 rstrip_dot_def Let_def)
  from make_cepnames_abbreviation [OF run i1]
  have c1: "?out ! 1 = ''Poasp''"
    by (simp add: t1 rstrip_dot_def Let_def)
  from run i2 s2 c2 i1 s1 c1 show ?thesis by simp
qed

text \<open>
  C5 as stated fails: the name \<^verbatim>\<open>Poa sp\<close> is abbreviated to the 5 characters
  \<^verbatim>\<open>Poasp\<close>, not to 8 characters.
\<close>

theorem make_cepnames_short_counterexample:
  "make_cepnames [''Poa sp''] False = Inr [''Poasp''] \<and> length ''Poasp'' \<noteq> 8"
  by (simp add: make_cepnames_def cepstr_def split_def is_space_def rstrip_dot_def)

text \<open>
  C6.  The names returned are meant to be pairwise distinct (the docstring: "The
  returned names are made unique by adding numbers to duplicate names"), but the name
  built for a duplicate is not compared with the names already returned: on three
  different names the function returns \<^verbatim>\<open>Bellper1\<close> twice.
\<close>

theorem make_cepnames_duplicate_output:
  "make_cepnames [''Bellper1'', ''Bellis perennis'', ''Bellis perezii''] False
     = Inr [''Bellper1'', ''Bellpere'', ''Bellper1''] \<and>
   \<not> distinct [''Bellper1'', ''Bellpere'', ''Bellper1'']"
  by (simp add: make_cepnames_def cepstr_def split_def is_space_def rstrip_dot_def str_nat.simps)

text \<open>
  C10 as stated fails: in the list \<^verbatim>\<open>['abc', 'abc']\<close> the second name splits to the
  single token \<^verbatim>\<open>abc\<close> and is abbreviated to \<^verbatim>\<open>abc1\<close>, not to the first 8
  characters of the token.
\<close>

theorem make_cepnames_single_token_counterexample:
  "make_cepnames [''abc'', ''abc''] False = Inr [''abc'', ''abc1''] \<and>
   split ([''abc'', ''abc''] ! 1) = [''abc''] \<and> [''abc'', ''abc1''] ! 1 \<noteq> take 8 ''abc''"
  by (simp add: make_cepnames_def cepstr_def split_def is_space_def rstrip_dot_def str_nat.simps)

text \<open>
  C10 (as amended).  \<^verbatim>\<open>__make_cepnames\<close> returns exactly on the lists in which
  every name has at least one token; on any other list it raises \<open>IndexError\<close>.  When
  it returns, the result is as long as the input, and a name that splits to a single
  token \<open>t\<close> is abbreviated to the first 8 characters of \<open>t\<close>, unless these 8
  characters are among the names returned for the earlier positions: then it is
  abbreviated to the first 7 characters of \<open>t\<close> followed by a counter.
\<close>

theorem make_cepnames_total_on_tokens:
  "(if \<forall>name \<in> set names. split name \<noteq> []
    then \<exists>out. make_cepnames names seconditem = Inr out \<and> length out = length names \<and>
           (\<forall>i<length names. \<forall>t. split (names ! i) = [t] \<longrightarrow>
              (if take 8 t \<in> set (take i out) then \<exists>k\<ge>1. out ! i = take 7 t @ str_nat k
               else out ! i = take 8 t))
    else make_cepnames names seconditem = Inl IndexError)"
proof (cases "\<forall>name \<in> set names. split name \<noteq> []")
  case True
  then obtain out where loop: "cepnames_loop seconditem names 1 [] = Inr out"
    using loop_Inr_iff [of seconditem names 1 "[]"] by blast
  from loop_prefix [OF loop] have len: "length out = length names" by auto
  have nth: "\<forall>i<length names. \<forall>t. split (names ! i) = [t] \<longrightarrow>
              (if take 8 t \<in> set (take i out) then \<exists>k\<ge>1. out ! i = take 7 t @ str_nat k
               else out ! i = take 8 t)"
  proof (intro allI impI)
    fix i t
    assume i: "i < length names" and t: "split (names ! i) = [t]"
    from t have "cepstr seconditem (names ! i) = Inr (take 8 t)"
      by (simp add: cepstr_def)
    with loop_nth [OF loop i]
    show "if take 8 t \<in> set (take i out) then \<exists>k\<ge>1. out ! i = take 7 t @ str_nat k
          else out ! i = take 8 t"
      by (auto split: if_splits)
  qed
  from loop have "make_cepnames names seconditem = Inr out"
    by (simp add: make_cepnames_def)
  with len nth have ex: "\<exists>out. make_cepnames names seconditem = Inr out \<and> length out = length names \<and>
           (\<forall>i<length names. \<forall>t. split (names ! i) = [t] \<longrightarrow>
              (if take 8 t \<in> set (take i out) then \<exists>k\<ge>1. out ! i = take 7 t @ str_nat k
               else out ! i = take 8 t))"
    by blast
  show ?thesis by (subst if_P [OF True]) (rule ex)
next
  case False
  then have "\<not> (\<exists>out. cepnames_loop seconditem names 1 [] = Inr out)"
    using loop_Inr_iff [of seconditem names 1 "[]"] by blast
  then obtain e where e: "cepnames_loop seconditem names 1 [] = Inl e"
    by (cases "cepnames_loop seconditem names 1 []") auto
  from loop_Inl [OF e] e have "make_cepnames names seconditem = Inl IndexError"
    by (simp add: make_cepnames_def)
  then show ?thesis by (subst if_not_P [OF False])
qed

text \<open>
  The theorem on a list whose names all have a token, and on a list with a blank name.
\<close>

theorem make_cepnames_total_on_tokens_witness:
  "split ''Carex'' = [''Carex''] \<and> split ''Poa annua'' = [''Poa'', ''annua''] \<and>
   (\<exists>out. make_cepnames [''Carex'', ''Poa annua''] True = Inr out \<and> length out = 2 \<and> out ! 0 = ''Carex'') \<and>
   split ''  '' = [] \<and>
   make_cepnames [''Carex'', ''  ''] True = Inl IndexError"
proof -
  have s: "split ''Carex'' = [''Carex'']" "split ''Poa annua'' = [''Poa'', ''annua'']" "split ''  '' = []"
    by (simp_all add: split_def is_space_def)
  have a: "\<forall>name \<in> set [''Carex'', ''Poa annua'']. split name \<noteq> []"
    by (simp add: split_def is_space_def)
  have b: "\<not> (\<forall>name \<in> set [''Carex'', ''  '']. split name \<noteq> [])"
    by (simp add: split_def is_space_def)
  have t: "split ([''Carex'', ''Poa annua''] ! 0) = [''Carex'']"
    by (simp add: split_def is_space_def)
  from make_cepnames_total_on_tokens [of "[''Carex'', ''Poa annua'']" True] a
  obtain out where o: "make_cepnames [''Carex'', ''Poa annua''] True = Inr out"
    "length out = length [''Carex'', ''Poa annua'']"
    "\<forall>i<length [''Carex'', ''Poa annua'']. \<forall>t. split ([''Carex'', ''Poa annua''] ! i) = [t] \<longrightarrow>
              (if take 8 t \<in> set (take i out) then \<exists>k\<ge>1. out ! i = take 7 t @ str_nat k
               else out ! i = take 8 t)"
    by auto
  from o(3) t have "out ! 0 = ''Carex''" by fastforce
  with o(1,2) have c: "\<exists>out. make_cepnames [''Carex'', ''Poa annua''] True = Inr out \<and> length out = 2 \<and> out ! 0 = ''Carex''"
    by simp
  from make_cepnames_total_on_tokens [of "[''Carex'', ''  '']" True] b
  have d: "make_cepnames [''Carex'', ''  ''] True = Inl IndexError" by presburger
  from s c d show ?thesis by blast
qed

section \<open>Single statements\<close>

lemma and_then_InrE:
  assumes "and_then m f w = (Inr y, w'')"
  obtains x w' where "m w = (Inr x, w')" and "f x w' = (Inr y, w'')"
  using assms by (auto simp: and_then_def split: prod.splits sum.splits)

lemma return_Inr: "return x w = (Inr y, w') \<Longrightarrow> y = x \<and> w' = w"
  by (auto simp: return_def)

lemma guard_Inr: "(if b then raise e else return u) w = (Inr x, w') \<Longrightarrow> \<not> b \<and> w' = w"
  by (auto simp: return_def raise_def split: if_splits)

lemma os_remove_Inr:
  "os_remove p w = (Inr u, w') \<Longrightarrow>
   files w p \<noteq> None \<and> files w' = (files w)(p := None) \<and> procs w' = procs w \<and> frame w' = frame w"
  by (auto simp: os_remove_def split: if_splits)

lemma write_text_Inr:
  "write_text p c w = (Inr u, w') \<Longrightarrow>
   files w' = (files w)(p \<mapsto> c) \<and> procs w' = procs w \<and> frame w' = frame w"
  by (auto simp: write_text_def)

lemma readlines_Inr:
  "readlines p w = (Inr ls, w') \<Longrightarrow> w' = w"
  by (auto simp: readlines_def split: option.splits)

lemma lift_Inr: "lift r w = (Inr x, w') \<Longrightarrow> r = Inr x \<and> w' = w"
  by (auto simp: lift_def)

lemma subprocess_run_Inr:
  "subprocess_run env argv w = (Inr rc, w') \<Longrightarrow>
   rc = fst (subprocess env argv (files w)) \<and>
   files w' = snd (subprocess env argv (files w)) \<and> procs w' = procs w @ [argv] \<and>
   frame w' = frame w"
  by (auto simp: subprocess_run_def split: prod.splits)

lemma compile_fortran_Inr:
  "compile_fortran env path w = (Inr exe, w') \<Longrightarrow>
   \<exists>compiler. which env ''gfortran'' = Some compiler \<and>
     exe = path_div (getcwd env) ''decorana.exe'' \<and>
     fst (subprocess env [compiler, ''-o'', exe, path] (files w)) = 0 \<and>
     files w' = snd (subprocess env [compiler, ''-o'', exe, path] (files w)) \<and>
     procs w' = procs w @ [[compiler, ''-o'', exe, path]] \<and>
     frame w' = frame w"
  by (auto simp: compile_fortran_def Let_def raise_def return_def
      split: option.splits if_splits elim!: and_then_InrE dest!: subprocess_run_Inr)

lemma write_cep_Inr:
  "write_cep env w = (Inr (rows, columns, row_lab, col_lab), w') \<Longrightarrow>
   rows = length (df_index (frame w)) \<and> columns = length (df_columns (frame w)) \<and>
   row_lab = df_index (frame w) \<and>
   make_cepnames (df_columns (frame w)) False = Inr col_lab \<and>
   files w' = (files w)(''cep.dat'' \<mapsto> cep_dat env (frame w) row_lab col_lab) \<and>
   procs w' = procs w \<and> frame w' = frame w"
  by (auto simp: write_cep_def Let_def get_frame_def return_def
      elim!: and_then_InrE dest!: lift_Inr write_text_Inr)

lemma decorana_Inr:
  assumes "decorana env cfg w = (Inr (site_scores, species_scores, row_lab, col_lab), w')"
  shows "\<exists>compiler. which env ''gfortran'' = Some compiler \<and>
           procs w' = procs w @ [[compiler, ''-o'', path_div (getcwd env) ''decorana.exe'', ''decorana.f''],
                                 [path_div (getcwd env) ''decorana.exe'' @ '' < params.dat'']] \<and>
           files w' ''decorana.exe'' = None \<and> files w' ''cep.dat'' = None \<and>
           files w' ''params.dat'' = None \<and> files w' ''decorana.out'' = None \<and>
           files w' ''decorana.prt'' = None \<and>
           row_lab = df_index (frame w) \<and>
           make_cepnames (df_columns (frame w)) False = Inr col_lab \<and>
           frame w' = frame w"
  using assms unfolding decorana_def
  apply (elim and_then_InrE)
  apply (drule compile_fortran_Inr)
  apply clarify
  apply (simp only: prod.case)
  apply (elim and_then_InrE)
  apply (drule write_cep_Inr)
  apply (drule write_text_Inr)
  apply (drule subprocess_run_Inr)
  apply (drule guard_Inr)
  apply (drule os_remove_Inr)+
  apply (drule readlines_Inr)+
  apply (drule lift_Inr)+
  apply (drule return_Inr)
  apply (simp only: prod.inject)
  apply (elim conjE)
  apply (rule_tac x=compiler in exI)
  apply (intro conjI)
  apply (simp_all (no_asm_simp))
  done

subsection \<open>The data frame is only read\<close>

lemma frame_and_then:
  assumes "\<And>w. frame (snd (m w)) = frame w" and "\<And>x w. frame (snd (f x w)) = frame w"
  shows "frame (snd (and_then m f w)) = frame w"
proof (cases "m w")
  case (Pair r w1)
  then have w1: "frame w1 = frame w" using assms(1) [of w] by simp
  show ?thesis
  proof (cases r)
    case (Inl e)
    with Pair w1 show ?thesis by (simp add: and_then_def)
  next
    case (Inr x)
    with Pair w1 assms(2) [of x w1] show ?thesis by (simp add: and_then_def)
  qed
qed

lemma frame_case_prod:
  assumes "\<And>a b w. frame (snd (f a b w)) = frame w"
  shows "frame (snd (case_prod f x w)) = frame w"
  using assms by (cases x) simp

lemma frame_return: "frame (snd (return x w)) = frame w"
  by (simp add: return_def)

lemma frame_raise: "frame (snd (raise e w)) = frame w"
  by (simp add: raise_def)

lemma frame_guard: "frame (snd ((if b then raise e else return u) w)) = frame w"
  by (simp add: return_def raise_def)

lemma frame_lift: "frame (snd (lift r w)) = frame w"
  by (simp add: lift_def)

lemma frame_get_frame: "frame (snd (get_frame w)) = frame w"
  by (simp add: get_frame_def)

lemma frame_write_text: "frame (snd (write_text p c w)) = frame w"
  by (simp add: write_text_def)

lemma frame_os_remove: "frame (snd (os_remove p w)) = frame w"
  by (simp add: os_remove_def)

lemma frame_readlines: "frame (snd (readlines p w)) = frame w"
  by (simp add: readlines_def split: option.splits)

lemma frame_subprocess_run: "frame (snd (subprocess_run env argv w)) = frame w"
  by (simp add: subprocess_run_def split: prod.splits)

lemma frame_compile_fortran: "frame (snd (compile_fortran env path w)) = frame w"
proof (cases "which env ''gfortran''")
  case None
  then show ?thesis by (simp add: compile_fortran_def raise_def)
next
  case (Some compiler)
  have "frame (snd (and_then (subprocess_run env argv)
          (\<lambda>returncode. if returncode = 0 then return exe else raise e) w)) = frame w" for argv exe e
    by (rule frame_and_then) (simp_all add: frame_subprocess_run return_def raise_def)
  with Some show ?thesis by (simp add: compile_fortran_def Let_def)
qed

lemma frame_write_cep: "frame (snd (write_cep env w)) = frame w"
  unfolding write_cep_def Let_def
  by (intro frame_and_then frame_get_frame frame_lift frame_write_text frame_return)

subsection \<open>The processes started\<close>

lemma procs_and_then:
  assumes "\<And>w. procs (snd (m w)) = procs w" and "\<And>x w. procs (snd (f x w)) = procs w"
  shows "procs (snd (and_then m f w)) = procs w"
proof (cases "m w")
  case (Pair r w1)
  then have w1: "procs w1 = procs w" using assms(1) [of w] by simp
  show ?thesis
  proof (cases r)
    case (Inl e)
    with Pair w1 show ?thesis by (simp add: and_then_def)
  next
    case (Inr x)
    with Pair w1 assms(2) [of x w1] show ?thesis by (simp add: and_then_def)
  qed
qed

lemma procs_return: "procs (snd (return x w)) = procs w"
  by (simp add: return_def)

lemma procs_guard: "procs (snd ((if b then raise e else return u) w)) = procs w"
  by (simp add: return_def raise_def)

lemma procs_lift: "procs (snd (lift r w)) = procs w"
  by (simp add: lift_def)

lemma procs_os_remove: "procs (snd (os_remove p w)) = procs w"
  by (simp add: os_remove_def)

lemma procs_readlines: "procs (snd (readlines p w)) = procs w"
  by (simp add: readlines_def split: option.splits)

lemma compile_fortran_ok:
  assumes "which env ''gfortran'' = Some compiler"
    and "fst (subprocess env [compiler, ''-o'', path_div (getcwd env) ''decorana.exe'', path] (files w)) = 0"
  shows "compile_fortran env path w =
           (Inr (path_div (getcwd env) ''decorana.exe''),
            w\<lparr>files := snd (subprocess env [compiler, ''-o'', path_div (getcwd env) ''decorana.exe'', path] (files w)),
              procs := procs w @ [[compiler, ''-o'', path_div (getcwd env) ''decorana.exe'', path]]\<rparr>)"
  using assms
  by (auto simp: compile_fortran_def Let_def and_then_def subprocess_run_def return_def
      split: prod.splits)

lemma compile_fortran_failed:
  assumes "which env ''gfortran'' = Some compiler"
    and "fst (subprocess env [compiler, ''-o'', path_div (getcwd env) ''decorana.exe'', path] (files w)) \<noteq> 0"
  shows "fst (compile_fortran env path w) = Inl (Exception (''Compilation of '' @ path @ '' failed!''))"
  using assms
  by (auto simp: compile_fortran_def Let_def and_then_def subprocess_run_def raise_def
      split: prod.splits)

lemma compile_fortran_missing:
  assumes "which env ''gfortran'' = None"
  shows "compile_fortran env path w = (Inl (Exception ''GNU Fortran compiler is not installed!''), w)"
  using assms by (simp add: compile_fortran_def raise_def)

lemma write_cep_ok:
  assumes "make_cepnames (df_columns (frame w)) False = Inr col_lab"
  shows "write_cep env w =
           (Inr (length (df_index (frame w)), length (df_columns (frame w)), df_index (frame w), col_lab),
            w\<lparr>files := (files w)(''cep.dat'' \<mapsto> cep_dat env (frame w) (df_index (frame w)) col_lab)\<rparr>)"
  using assms
  by (simp add: write_cep_def Let_def and_then_def get_frame_def lift_def write_text_def return_def)

lemma decorana_labels:
  assumes "fst (decorana env cfg w) = Inr (site_scores, species_scores, row_lab, col_lab)"
  shows "row_lab = df_index (frame w) \<and> make_cepnames (df_columns (frame w)) False = Inr col_lab"
proof -
  from assms have "decorana env cfg w =
      (Inr (site_scores, species_scores, row_lab, col_lab), snd (decorana env cfg w))"
    by (simp add: prod_eq_iff)
  from decorana_Inr [OF this] show ?thesis by blast
qed

lemma decorana_started:
  assumes which: "which env ''gfortran'' = Some compiler"
    and rc: "fst (subprocess env [compiler, ''-o'', path_div (getcwd env) ''decorana.exe'', ''decorana.f''] (files w)) = 0"
    and names: "make_cepnames (df_columns (frame w)) False = Inr col_lab"
  shows "procs (snd (decorana env cfg w)) =
           procs w @ [[compiler, ''-o'', path_div (getcwd env) ''decorana.exe'', ''decorana.f''],
                      [path_div (getcwd env) ''decorana.exe'' @ '' < params.dat'']]"
proof -
  define exe where "exe = path_div (getcwd env) ''decorana.exe''"
  define w1 where "w1 = w\<lparr>files := snd (subprocess env [compiler, ''-o'', exe, ''decorana.f''] (files w)),
                          procs := procs w @ [[compiler, ''-o'', exe, ''decorana.f'']]\<rparr>"
  define w2 where "w2 = w1\<lparr>files := (files w1)(''cep.dat'' \<mapsto> cep_dat env (frame w1) (df_index (frame w1)) col_lab)\<rparr>"
  define w3 where "w3 = w2\<lparr>files := (files w2)(''params.dat'' \<mapsto> params_dat cfg)\<rparr>"
  define w4 where "w4 = w3\<lparr>files := snd (subprocess env [exe @ '' < params.dat''] (files w3)),
                           procs := procs w3 @ [[exe @ '' < params.dat'']]\<rparr>"
  define rc4 where "rc4 = fst (subprocess env [exe @ '' < params.dat''] (files w3))"
  have "compile_fortran env ''decorana.f'' w = (Inr exe, w1)"
    using compile_fortran_ok [OF which rc] by (simp add: exe_def w1_def)
  then have 1: "and_then (compile_fortran env ''decorana.f'') f w = f exe w1" for f :: "string \<Rightarrow> ('x, 'a) io"
    by (simp add: and_then_def)
  have "make_cepnames (df_columns (frame w1)) False = Inr col_lab"
    using names by (simp add: w1_def)
  from write_cep_ok [OF this]
  have "write_cep env w1 =
      (Inr (length (df_index (frame w1)), length (df_columns (frame w1)), df_index (frame w1), col_lab), w2)"
    by (simp add: w2_def)
  then have 2: "and_then (write_cep env) f w1 =
      f (length (df_index (frame w1)), length (df_columns (frame w1)), df_index (frame w1), col_lab) w2"
    for f :: "nat \<times> nat \<times> label list \<times> string list \<Rightarrow> ('x, 'a) io"
    by (simp add: and_then_def)
  have 3: "and_then (write_text ''params.dat'' (params_dat cfg)) f w2 = f () w3"
    for f :: "unit \<Rightarrow> ('x, 'a) io"
    by (simp add: and_then_def write_text_def w3_def)
  have 4: "and_then (subprocess_run env [exe @ '' < params.dat'']) f w3 = f rc4 w4"
    for f :: "int \<Rightarrow> ('x, 'a) io"
    by (simp add: and_then_def subprocess_run_def w4_def rc4_def split: prod.splits)
  have "procs (snd (decorana env cfg w)) = procs w4"
    unfolding decorana_def exe_def [symmetric]
    apply (subst 1)
    apply (subst 2)
    apply (simp only: prod.case)
    apply (subst 3)
    apply (subst 4)
    apply (intro procs_and_then procs_guard procs_os_remove procs_readlines procs_lift procs_return)
    done
  also have "procs w4 = procs w @ [[compiler, ''-o'', exe, ''decorana.f''], [exe @ '' < params.dat'']]"
    by (simp add: w4_def w3_def w2_def w1_def)
  finally show ?thesis by (simp add: exe_def)
qed

lemma cep_row_loop_zero:
  "\<forall>j \<in> set js. \<not> ne_zero env (df_iloc data i j) \<Longrightarrow> cep_row_loop env data i js st = st"
proof (induction js)
  case Nil
  then show ?case by simp
next
  case (Cons j js)
  then show ?case by (cases st) simp
qed

lemma upt_without:
  assumes "i < n"
  shows "[0..<n] = [0..<i] @ i # [Suc i..<n]"
proof -
  from assms have "[0..<i + (n - i)] = [0..<i] @ [i..<i + (n - i)]"
    by (intro upt_add_eq_append) simp
  with assms have "[0..<n] = [0..<i] @ [i..<n]" by simp
  with assms show ?thesis by (simp add: upt_conv_Cons)
qed

lemma cep_row_zero:
  assumes "\<forall>j<length (df_columns data). \<not> ne_zero env (df_iloc data i j)"
  shows "cep_row env data i = []"
proof -
  from assms have "\<forall>j \<in> set [0..<length (df_columns data)]. \<not> ne_zero env (df_iloc data i j)"
    by simp
  then have "cep_row_loop env data i [0..<length (df_columns data)] (0, False, []) = (0, False, [])"
    by (rule cep_row_loop_zero)
  then show ?thesis by (simp add: cep_row_def)
qed

lemma cep_dat_zero_row:
  assumes "i < length (df_index data)"
    and "\<forall>j<length (df_columns data). \<not> ne_zero env (df_iloc data i j)"
  shows "cep_dat env data row_lab col_lab =
     ''dummy title\<newline>'' @ ''(I3,5(I3,F3.0))\<newline>'' @ (fmt_3d 5 @ '' \<newline>'') @
     concat (map (cep_row env data) ([0..<i] @ [Suc i..<length (df_index data)])) @
     (fmt_3d 0 @ '' \<newline>'') @
     concat (map (\<lambda>(j, m). m @ (if j mod 10 = 0 then ''\<newline>'' else []))
                 (zip [1..<Suc (length col_lab)] col_lab)) @
     ''\<newline>'' @
     concat (map (\<lambda>(i, m). ljust 8 (py_str m) @ (if i mod 10 = 0 then ''\<newline>'' else []))
                 (zip [1..<Suc (length row_lab)] row_lab))"
proof -
  have "concat (map (cep_row env data) [0..<length (df_index data)]) =
        concat (map (cep_row env data) ([0..<i] @ [Suc i..<length (df_index data)]))"
    by (subst upt_without [OF assms(1)]) (simp add: cep_row_zero [OF assms(2)])
  then show ?thesis unfolding cep_dat_def by (simp only:)
qed

section \<open>The outcome of \<^verbatim>\<open>decorana\<close>\<close>

lemma decorana_outcome:
  fixes env :: "('v, 'm) env" and w :: "'v world"
  assumes which: "which env ''gfortran'' = Some compiler"
    and rc: "fst (subprocess env [compiler, ''-o'', path_div (getcwd env) ''decorana.exe'', ''decorana.f''] (files w)) = 0"
    and names: "make_cepnames (df_columns (frame w)) False = Inr col_lab"
    and run: "subprocess env [path_div (getcwd env) ''decorana.exe'' @ '' < params.dat'']
                ((snd (subprocess env [compiler, ''-o'', path_div (getcwd env) ''decorana.exe'', ''decorana.f''] (files w)))
                 (''cep.dat'' \<mapsto> cep_dat env (frame w) (df_index (frame w)) col_lab,
                  ''params.dat'' \<mapsto> params_dat cfg)) = (rc', fs)"
  shows "rc' \<noteq> 0 \<Longrightarrow>
           fst (decorana env cfg w) = Inl (Exception (''decorana.exe exited with code '' @ str_int rc' @ ''!''))"
    and "rc' = 0 \<Longrightarrow> fs ''decorana.exe'' \<noteq> None \<Longrightarrow> fs ''cep.dat'' \<noteq> None \<Longrightarrow>
         fs ''params.dat'' \<noteq> None \<Longrightarrow> fs ''decorana.out'' = Some out \<Longrightarrow> fs ''decorana.prt'' \<noteq> None \<Longrightarrow>
         genfromtxt env (lines_from (universal_newlines out) []) (length (df_index (frame w))) = Inr site_scores \<Longrightarrow>
         genfromtxt env (map (drop 41) (lines_from (universal_newlines out) [])) (length (df_columns (frame w))) = Inr species_scores \<Longrightarrow>
           fst (decorana env cfg w) = Inr (site_scores, species_scores, df_index (frame w), col_lab)"
proof -
  define exe where "exe = path_div (getcwd env) ''decorana.exe''"
  define w1 where "w1 = w\<lparr>files := snd (subprocess env [compiler, ''-o'', exe, ''decorana.f''] (files w)),
                          procs := procs w @ [[compiler, ''-o'', exe, ''decorana.f'']]\<rparr>"
  define w2 where "w2 = w1\<lparr>files := (files w1)(''cep.dat'' \<mapsto> cep_dat env (frame w1) (df_index (frame w1)) col_lab)\<rparr>"
  define w3 where "w3 = w2\<lparr>files := (files w2)(''params.dat'' \<mapsto> params_dat cfg)\<rparr>"
  define w4 where "w4 = w3\<lparr>files := fs, procs := procs w3 @ [[exe @ '' < params.dat'']]\<rparr>"
  have "compile_fortran env ''decorana.f'' w = (Inr exe, w1)"
    using compile_fortran_ok [OF which rc] by (simp add: exe_def w1_def)
  then have 1: "and_then (compile_fortran env ''decorana.f'') f w = f exe w1" for f :: "string \<Rightarrow> ('x, 'v) io"
    by (simp add: and_then_def)
  have "make_cepnames (df_columns (frame w1)) False = Inr col_lab"
    using names by (simp add: w1_def)
  from write_cep_ok [OF this]
  have "write_cep env w1 =
      (Inr (length (df_index (frame w1)), length (df_columns (frame w1)), df_index (frame w1), col_lab), w2)"
    by (simp add: w2_def)
  then have 2: "and_then (write_cep env) f w1 =
      f (length (df_index (frame w1)), length (df_columns (frame w1)), df_index (frame w1), col_lab) w2"
    for f :: "nat \<times> nat \<times> label list \<times> string list \<Rightarrow> ('x, 'v) io"
    by (simp add: and_then_def)
  have 3: "and_then (write_text ''params.dat'' (params_dat cfg)) f w2 = f () w3"
    for f :: "unit \<Rightarrow> ('x, 'v) io"
    by (simp add: and_then_def write_text_def w3_def)
  have "files w3 = (snd (subprocess env [compiler, ''-o'', exe, ''decorana.f''] (files w)))
                 (''cep.dat'' \<mapsto> cep_dat env (frame w) (df_index (frame w)) col_lab,
                  ''params.dat'' \<mapsto> params_dat cfg)"
    by (simp add: w3_def w2_def w1_def)
  with run have "subprocess env [exe @ '' < params.dat''] (files w3) = (rc', fs)"
    by (simp add: exe_def)
  then have 4: "and_then (subprocess_run env [exe @ '' < params.dat'']) f w3 = f rc' w4"
    for f :: "int \<Rightarrow> ('x, 'v) io"
    by (simp add: and_then_def subprocess_run_def w4_def)
  have start: "decorana env cfg w =
     and_then (if rc' \<noteq> 0
               then raise (Exception (''decorana.exe exited with code '' @ str_int rc' @ ''!''))
               else return ()) (\<lambda>_.
     and_then (os_remove ''decorana.exe'') (\<lambda>_.
     and_then (os_remove ''cep.dat'') (\<lambda>_.
     and_then (os_remove ''params.dat'') (\<lambda>_.
     and_then (readlines ''decorana.out'') (\<lambda>ls.
     and_then (lift (genfromtxt env ls (length (df_index (frame w1))))) (\<lambda>site_scores.
     and_then (readlines ''decorana.out'') (\<lambda>ls'.
     and_then (lift (genfromtxt env (map (drop 41) ls') (length (df_columns (frame w1))))) (\<lambda>species_scores.
     and_then (os_remove ''decorana.out'') (\<lambda>_.
     and_then (os_remove ''decorana.prt'') (\<lambda>_.
     return (site_scores, species_scores, df_index (frame w1), col_lab))))))))))) w4"
    unfolding decorana_def exe_def [symmetric]
    apply (subst 1)
    apply (subst 2)
    apply (simp only: prod.case)
    apply (subst 3)
    apply (subst 4)
    apply (rule refl)
    done
  have fw: "frame w1 = frame w" "files w4 = fs"
    by (simp_all add: w1_def w4_def)
  show "rc' \<noteq> 0 \<Longrightarrow>
           fst (decorana env cfg w) = Inl (Exception (''decorana.exe exited with code '' @ str_int rc' @ ''!''))"
    by (simp add: start and_then_def raise_def)
  show "rc' = 0 \<Longrightarrow> fs ''decorana.exe'' \<noteq> None \<Longrightarrow> fs ''cep.dat'' \<noteq> None \<Longrightarrow>
         fs ''params.dat'' \<noteq> None \<Longrightarrow> fs ''decorana.out'' = Some out \<Longrightarrow> fs ''decorana.prt'' \<noteq> None \<Longrightarrow>
         genfromtxt env (lines_from (universal_newlines out) []) (length (df_index (frame w))) = Inr site_scores \<Longrightarrow>
         genfromtxt env (map (drop 41) (lines_from (universal_newlines out) [])) (length (df_columns (frame w))) = Inr species_scores \<Longrightarrow>
           fst (decorana env cfg w) = Inr (site_scores, species_scores, df_index (frame w), col_lab)"
    by (simp add: start fw and_then_def return_def os_remove_def readlines_def lift_def)
qed

lemma decorana_after_start:
  fixes env :: "('v, 'm) env" and w :: "'v world"
  assumes which: "which env ''gfortran'' = Some compiler"
    and rc: "fst (subprocess env [compiler, ''-o'', path_div (getcwd env) ''decorana.exe'', ''decorana.f''] (files w)) = 0"
    and names: "make_cepnames (df_columns (frame w)) False = Inr col_lab"
    and run: "subprocess env [path_div (getcwd env) ''decorana.exe'' @ '' < params.dat'']
                ((snd (subprocess env [compiler, ''-o'', path_div (getcwd env) ''decorana.exe'', ''decorana.f''] (files w)))
                 (''cep.dat'' \<mapsto> cep_dat env (frame w) (df_index (frame w)) col_lab,
                  ''params.dat'' \<mapsto> params_dat cfg)) = (rc', fs)"
  shows "decorana env cfg w =
     and_then (if rc' \<noteq> 0
               then raise (Exception (''decorana.exe exited with code '' @ str_int rc' @ ''!''))
               else return ()) (\<lambda>_.
     and_then (os_remove ''decorana.exe'') (\<lambda>_.
     and_then (os_remove ''cep.dat'') (\<lambda>_.
     and_then (os_remove ''params.dat'') (\<lambda>_.
     and_then (readlines ''decorana.out'') (\<lambda>ls.
     and_then (lift (genfromtxt env ls (length (df_index (frame w))))) (\<lambda>site_scores.
     and_then (readlines ''decorana.out'') (\<lambda>ls'.
     and_then (lift (genfromtxt env (map (drop 41) ls') (length (df_columns (frame w))))) (\<lambda>species_scores.
     and_then (os_remove ''decorana.out'') (\<lambda>_.
     and_then (os_remove ''decorana.prt'') (\<lambda>_.
     return (site_scores, species_scores, df_index (frame w), col_lab)))))))))))
       (w\<lparr>files := fs,
          procs := procs w @ [[compiler, ''-o'', path_div (getcwd env) ''decorana.exe'', ''decorana.f''],
                              [path_div (getcwd env) ''decorana.exe'' @ '' < params.dat'']]\<rparr>)"
proof -
  define exe where "exe = path_div (getcwd env) ''decorana.exe''"
  define w1 where "w1 = w\<lparr>files := snd (subprocess env [compiler, ''-o'', exe, ''decorana.f''] (files w)),
                          procs := procs w @ [[compiler, ''-o'', exe, ''decorana.f'']]\<rparr>"
  define w2 where "w2 = w1\<lparr>files := (files w1)(''cep.dat'' \<mapsto> cep_dat env (frame w1) (df_index (frame w1)) col_lab)\<rparr>"
  define w3 where "w3 = w2\<lparr>files := (files w2)(''params.dat'' \<mapsto> params_dat cfg)\<rparr>"
  define w4 where "w4 = w3\<lparr>files := fs, procs := procs w3 @ [[exe @ '' < params.dat'']]\<rparr>"
  have "compile_fortran env ''decorana.f'' w = (Inr exe, w1)"
    using compile_fortran_ok [OF which rc] by (simp add: exe_def w1_def)
  then have 1: "and_then (compile_fortran env ''decorana.f'') f w = f exe w1" for f :: "string \<Rightarrow> ('x, 'v) io"
    by (simp add: and_then_def)
  have "make_cepnames (df_columns (frame w1)) False = Inr col_lab"
    using names by (simp add: w1_def)
  from write_cep_ok [OF this]
  have "write_cep env w1 =
      (Inr (length (df_index (frame w1)), length (df_columns (frame w1)), df_index (frame w1), col_lab), w2)"
    by (simp add: w2_def)
  then have 2: "and_then (write_cep env) f w1 =
      f (length (df_index (frame w1)), length (df_columns (frame w1)), df_index (frame w1), col_lab) w2"
    for f :: "nat \<times> nat \<times> label list \<times> string list \<Rightarrow> ('x, 'v) io"
    by (simp add: and_then_def)
  have 3: "and_then (write_text ''params.dat'' (params_dat cfg)) f w2 = f () w3"
    for f :: "unit \<Rightarrow> ('x, 'v) io"
    by (simp add: and_then_def write_text_def w3_def)
  have "files w3 = (snd (subprocess env [compiler, ''-o'', exe, ''decorana.f''] (files w)))
                 (''cep.dat'' \<mapsto> cep_dat env (frame w) (df_index (frame w)) col_lab,
                  ''params.dat'' \<mapsto> params_dat cfg)"
    by (simp add: w3_def w2_def w1_def)
  with run have "subprocess env [exe @ '' < params.dat''] (files w3) = (rc', fs)"
    by (simp add: exe_def)
  then have 4: "and_then (subprocess_run env [exe @ '' < params.dat'']) f w3 = f rc' w4"
    for f :: "int \<Rightarrow> ('x, 'v) io"
    by (simp add: and_then_def subprocess_run_def w4_def)
  have fw: "frame w1 = frame w"
    by (simp add: w1_def)
  have w4: "w4 = w\<lparr>files := fs, procs := procs w @ [[compiler, ''-o'', exe, ''decorana.f''], [exe @ '' < params.dat'']]\<rparr>"
    by (simp add: w4_def w3_def w2_def w1_def)
  show ?thesis
    unfolding decorana_def exe_def [symmetric]
    apply (subst 1)
    apply (subst 2)
    apply (simp only: prod.case)
    apply (subst 3)
    apply (subst 4)
    apply (simp only: fw w4)
    done
qed

lemma files_and_then:
  assumes "\<And>w. files (snd (m w)) p = files w p" and "\<And>x w. files (snd (f x w)) p = files w p"
  shows "files (snd (and_then m f w)) p = files w p"
proof (cases "m w")
  case (Pair r w1)
  then have w1: "files w1 p = files w p" using assms(1) [of w] by simp
  show ?thesis
  proof (cases r)
    case (Inl e)
    with Pair w1 show ?thesis by (simp add: and_then_def)
  next
    case (Inr x)
    with Pair w1 assms(2) [of x w1] show ?thesis by (simp add: and_then_def)
  qed
qed

lemma files_return: "files (snd (return x w)) p = files w p"
  by (simp add: return_def)

lemma files_guard: "files (snd ((if b then raise e else return u) w)) p = files w p"
  by (simp add: return_def raise_def)

lemma files_lift: "files (snd (lift r w)) p = files w p"
  by (simp add: lift_def)

lemma files_os_remove: "p \<noteq> q \<Longrightarrow> files (snd (os_remove q w)) p = files w p"
  by (simp add: os_remove_def)

lemma files_readlines: "files (snd (readlines q w)) p = files w p"
  by (simp add: readlines_def split: option.splits)

lemma decorana_other_files:
  fixes env :: "('v, 'm) env" and w :: "'v world"
  assumes which: "which env ''gfortran'' = Some compiler"
    and rc: "fst (subprocess env [compiler, ''-o'', path_div (getcwd env) ''decorana.exe'', ''decorana.f''] (files w)) = 0"
    and names: "make_cepnames (df_columns (frame w)) False = Inr col_lab"
    and p: "p \<notin> {''decorana.exe'', ''cep.dat'', ''params.dat'', ''decorana.out'', ''decorana.prt''}"
  shows "files (snd (decorana env cfg w)) p =
         snd (subprocess env [path_div (getcwd env) ''decorana.exe'' @ '' < params.dat'']
                ((snd (subprocess env [compiler, ''-o'', path_div (getcwd env) ''decorana.exe'', ''decorana.f''] (files w)))
                 (''cep.dat'' \<mapsto> cep_dat env (frame w) (df_index (frame w)) col_lab,
                  ''params.dat'' \<mapsto> params_dat cfg))) p"
proof -
  obtain rc' fs where run: "subprocess env [path_div (getcwd env) ''decorana.exe'' @ '' < params.dat'']
                ((snd (subprocess env [compiler, ''-o'', path_div (getcwd env) ''decorana.exe'', ''decorana.f''] (files w)))
                 (''cep.dat'' \<mapsto> cep_dat env (frame w) (df_index (frame w)) col_lab,
                  ''params.dat'' \<mapsto> params_dat cfg)) = (rc', fs)"
    by (metis prod.collapse)
  from p have q: "p \<noteq> ''decorana.exe''" "p \<noteq> ''cep.dat''" "p \<noteq> ''params.dat''"
    "p \<noteq> ''decorana.out''" "p \<noteq> ''decorana.prt''"
    by simp_all
  have "files (snd (decorana env cfg w)) p =
        files (w\<lparr>files := fs,
          procs := procs w @ [[compiler, ''-o'', path_div (getcwd env) ''decorana.exe'', ''decorana.f''],
                              [path_div (getcwd env) ''decorana.exe'' @ '' < params.dat'']]\<rparr>) p"
    apply (subst decorana_after_start [OF which rc names run])
    apply (intro files_and_then files_guard files_os_remove files_readlines files_lift files_return q)
    done
  then show ?thesis by (simp add: run)
qed

lemma decorana_result:
  fixes env :: "('v, 'm) env" and w :: "'v world"
  assumes which: "which env ''gfortran'' = Some compiler"
    and rc: "fst (subprocess env [compiler, ''-o'', path_div (getcwd env) ''decorana.exe'', ''decorana.f''] (files w)) = 0"
    and names: "make_cepnames (df_columns (frame w)) False = Inr col_lab"
    and run: "subprocess env [path_div (getcwd env) ''decorana.exe'' @ '' < params.dat'']
                ((snd (subprocess env [compiler, ''-o'', path_div (getcwd env) ''decorana.exe'', ''decorana.f''] (files w)))
                 (''cep.dat'' \<mapsto> cep_dat env (frame w) (df_index (frame w)) col_lab,
                  ''params.dat'' \<mapsto> params_dat cfg)) = (0, fs)"
    and fs: "fs ''decorana.exe'' \<noteq> None" "fs ''cep.dat'' \<noteq> None" "fs ''params.dat'' \<noteq> None"
      "fs ''decorana.out'' = Some out" "fs ''decorana.prt'' \<noteq> None"
  shows "fst (decorana env cfg w) =
     (case genfromtxt env (lines_from (universal_newlines out) []) (length (df_index (frame w))) of
        Inl e \<Rightarrow> Inl e
      | Inr site_scores \<Rightarrow>
         (case genfromtxt env (map (drop 41) (lines_from (universal_newlines out) []))
                 (length (df_columns (frame w))) of
            Inl e \<Rightarrow> Inl e
          | Inr species_scores \<Rightarrow> Inr (site_scores, species_scores, df_index (frame w), col_lab)))"
  using fs
  by (simp add: decorana_after_start [OF which rc names run] and_then_def return_def
      os_remove_def readlines_def lift_def split: sum.splits)

lemma leaves_output_names:
  "leaves_output env cfg w out \<Longrightarrow> \<exists>col_lab. make_cepnames (df_columns (frame w)) False = Inr col_lab"
  unfolding leaves_output_def by (auto split: option.splits prod.splits sum.splits)

lemma leaves_output_result:
  assumes "leaves_output env cfg w out"
    and "make_cepnames (df_columns (frame w)) False = Inr col_lab"
  shows "fst (decorana env cfg w) =
     (case genfromtxt env (lines_from (universal_newlines out) []) (length (df_index (frame w))) of
        Inl e \<Rightarrow> Inl e
      | Inr site_scores \<Rightarrow>
         (case genfromtxt env (map (drop 41) (lines_from (universal_newlines out) []))
                 (length (df_columns (frame w))) of
            Inl e \<Rightarrow> Inl e
          | Inr species_scores \<Rightarrow> Inr (site_scores, species_scores, df_index (frame w), col_lab)))"
proof -
  from assms(1) obtain compiler where 1: "which env ''gfortran'' = Some compiler"
    by (cases "which env ''gfortran''") (simp_all add: leaves_output_def)
  obtain returncode fs1 where 2: "subprocess env
      [compiler, ''-o'', path_div (getcwd env) ''decorana.exe'', ''decorana.f''] (files w) = (returncode, fs1)"
    by (metis prod.collapse)
  from assms(1) 1 2 have 3: "returncode = 0"
    by (simp add: leaves_output_def)
  from assms(1) 1 2 obtain col_lab' where 4: "make_cepnames (df_columns (frame w)) False = Inr col_lab'"
    by (cases "make_cepnames (df_columns (frame w)) False") (simp_all add: leaves_output_def)
  obtain returncode' fs where 5: "subprocess env [path_div (getcwd env) ''decorana.exe'' @ '' < params.dat'']
      (fs1(''cep.dat'' \<mapsto> cep_dat env (frame w) (df_index (frame w)) col_lab',
           ''params.dat'' \<mapsto> params_dat cfg)) = (returncode', fs)"
    by (metis prod.collapse)
  from assms(1) 1 2 4 5 have 6: "returncode' = 0" "fs ''decorana.exe'' \<noteq> None" "fs ''cep.dat'' \<noteq> None"
    "fs ''params.dat'' \<noteq> None" "fs ''decorana.out'' = Some out" "fs ''decorana.prt'' \<noteq> None"
    by (simp_all add: leaves_output_def)
  have a: "which env ''gfortran'' = Some compiler"
    "fst (subprocess env [compiler, ''-o'', path_div (getcwd env) ''decorana.exe'', ''decorana.f''] (files w)) = 0"
    "make_cepnames (df_columns (frame w)) False = Inr col_lab'"
    "subprocess env [path_div (getcwd env) ''decorana.exe'' @ '' < params.dat'']
          ((snd (subprocess env [compiler, ''-o'', path_div (getcwd env) ''decorana.exe'', ''decorana.f'']
                   (files w)))
           (''cep.dat'' \<mapsto> cep_dat env (frame w) (df_index (frame w)) col_lab',
            ''params.dat'' \<mapsto> params_dat cfg)) = (0, fs)"
    "fs ''decorana.exe'' \<noteq> None" "fs ''cep.dat'' \<noteq> None" "fs ''params.dat'' \<noteq> None"
    "fs ''decorana.out'' = Some out" "fs ''decorana.prt'' \<noteq> None"
    using 1 2 3 4 5 6 by simp_all
  from a(3) assms(2) have e: "col_lab' = col_lab" by simp
  from decorana_result [OF a] show ?thesis unfolding e .
qed

section \<open>The example runs\<close>

lemma ex_which: "which example_env ''gfortran'' = Some ''/usr/bin/gfortran''"
  by (simp add: example_env_def)

lemma ex_exe: "path_div (getcwd example_env) ''decorana.exe'' = ''/home/u/decorana.exe''"
  by (simp add: example_env_def path_div_def)

lemma ex_gfortran:
  "subprocess example_env [''/usr/bin/gfortran'', ''-o'', ''/home/u/decorana.exe'', ''decorana.f''] fs =
     (if fs ''decorana.f'' \<noteq> None then (0, fs(''decorana.exe'' \<mapsto> ''binary'')) else (1, fs))"
  by (simp add: example_env_def)

lemma ex_program:
  "subprocess example_env [''/home/u/decorana.exe < params.dat''] fs =
     (0, fs(''decorana.out'' \<mapsto> ''1 2 3 4\<newline>5 6 7 8\<newline>'', ''decorana.prt'' \<mapsto> ''done''))"
  by (simp add: example_env_def)

lemma ex_names: "make_cepnames (df_columns (frame example_world)) False = Inr [''Bellpere'', ''Poasp'', ''Carenigr'']"
  by (simp add: example_world_def example_frame_def make_cepnames_def cepstr_def split_def
      is_space_def rstrip_dot_def)

lemma ex_compiled:
  "fst (subprocess example_env
     [''/usr/bin/gfortran'', ''-o'', path_div (getcwd example_env) ''decorana.exe'', ''decorana.f'']
     (files example_world)) = 0"
  by (simp add: ex_exe ex_gfortran example_world_def)

lemma ex_lines:
  "lines_from (universal_newlines ''1 2 3 4\<newline>5 6 7 8\<newline>'') [] = [''1 2 3 4\<newline>'', ''5 6 7 8\<newline>'']"
  by simp

lemma example_result:
  "fst (decorana example_env cfg example_world) =
     Inr ([''1 2 3 4\<newline>'', ''5 6 7 8\<newline>''], [[], []], [LStr ''site1'', LInt 2], [''Bellpere'', ''Poasp'', ''Carenigr''])"
proof -
  have run: "subprocess example_env [path_div (getcwd example_env) ''decorana.exe'' @ '' < params.dat'']
      ((snd (subprocess example_env
          [''/usr/bin/gfortran'', ''-o'', path_div (getcwd example_env) ''decorana.exe'', ''decorana.f'']
          (files example_world)))
       (''cep.dat'' \<mapsto> cep_dat example_env (frame example_world) (df_index (frame example_world)) [''Bellpere'', ''Poasp'', ''Carenigr''],
        ''params.dat'' \<mapsto> params_dat cfg)) =
     (0, (files example_world)
           (''decorana.exe'' \<mapsto> ''binary'',
            ''cep.dat'' \<mapsto> cep_dat example_env (frame example_world) (df_index (frame example_world)) [''Bellpere'', ''Poasp'', ''Carenigr''],
            ''params.dat'' \<mapsto> params_dat cfg,
            ''decorana.out'' \<mapsto> ''1 2 3 4\<newline>5 6 7 8\<newline>'',
            ''decorana.prt'' \<mapsto> ''done''))"
    by (simp add: ex_exe ex_gfortran ex_program example_world_def)
  have "fst (decorana example_env cfg example_world) =
     Inr ([''1 2 3 4\<newline>'', ''5 6 7 8\<newline>''], [[], []], df_index (frame example_world), [''Bellpere'', ''Poasp'', ''Carenigr''])"
    by (rule decorana_outcome(2) [OF ex_which ex_compiled ex_names run,
          where out = "''1 2 3 4\<newline>5 6 7 8\<newline>''"])
       (simp_all add: ex_lines, simp_all add: example_env_def example_world_def example_frame_def)
  then show ?thesis by (simp add: example_world_def example_frame_def)
qed

lemma example_procs:
  "procs (snd (decorana example_env cfg example_world)) =
     [[''/usr/bin/gfortran'', ''-o'', ''/home/u/decorana.exe'', ''decorana.f''],
      [''/home/u/decorana.exe < params.dat'']]"
  using decorana_started [OF ex_which ex_compiled ex_names, of cfg]
  by (simp add: ex_exe example_world_def)

lemma no_compiler_result:
  "fst (decorana no_compiler_env cfg example_world) = Inl (Exception ''GNU Fortran compiler is not installed!'')"
proof -
  have "which no_compiler_env ''gfortran'' = None"
    by (simp add: no_compiler_env_def)
  from compile_fortran_missing [OF this]
  show ?thesis by (simp add: decorana_def and_then_def)
qed

lemma decorana_compile_failed:
  assumes "which env ''gfortran'' = Some compiler"
    and "fst (subprocess env [compiler, ''-o'', path_div (getcwd env) ''decorana.exe'', ''decorana.f''] (files w)) \<noteq> 0"
  shows "fst (decorana env cfg w) = Inl (Exception ''Compilation of decorana.f failed!'')"
proof -
  obtain r w1 where c: "compile_fortran env ''decorana.f'' w = (r, w1)"
    by (cases "compile_fortran env ''decorana.f'' w")
  with compile_fortran_failed [OF assms]
  have "r = Inl (Exception ''Compilation of decorana.f failed!'')" by simp
  with c show ?thesis by (simp add: decorana_def and_then_def)
qed

lemma empty_world_result:
  "fst (decorana example_env cfg empty_world) = Inl (Exception ''Compilation of decorana.f failed!'')"
proof -
  have "fst (subprocess example_env
     [''/usr/bin/gfortran'', ''-o'', path_div (getcwd example_env) ''decorana.exe'', ''decorana.f'']
     (files empty_world)) \<noteq> 0"
    by (simp add: ex_exe ex_gfortran empty_world_def)
  from decorana_compile_failed [OF ex_which this] show ?thesis .
qed

lemma crashing_result:
  "fst (decorana crashing_env cfg example_world) = Inl (Exception ''decorana.exe exited with code 2!'')"
proof -
  have w: "which crashing_env ''gfortran'' = Some ''/usr/bin/gfortran''"
    by (simp add: crashing_env_def example_env_def)
  have e: "path_div (getcwd crashing_env) ''decorana.exe'' = ''/home/u/decorana.exe''"
    by (simp add: crashing_env_def example_env_def path_div_def)
  have c: "fst (subprocess crashing_env
     [''/usr/bin/gfortran'', ''-o'', path_div (getcwd crashing_env) ''decorana.exe'', ''decorana.f'']
     (files example_world)) = 0"
    by (simp add: e) (simp add: crashing_env_def)
  have r: "subprocess crashing_env [path_div (getcwd crashing_env) ''decorana.exe'' @ '' < params.dat''] fs = (2, fs)" for fs
    by (simp add: e) (simp add: crashing_env_def)
  from decorana_outcome(1) [OF w c ex_names r, of cfg]
  show ?thesis by (simp add: str_int_def str_nat.simps)
qed

lemma ex_leaves_output:
  "leaves_output example_env cfg example_world ''1 2 3 4\<newline>5 6 7 8\<newline>''"
  unfolding leaves_output_def
  by (simp add: ex_which ex_exe ex_gfortran ex_program ex_names) (simp add: example_world_def)

lemma other_leaves_output:
  "leaves_output example_env cfg other_world ''1 2 3 4\<newline>5 6 7 8\<newline>''"
proof -
  have "make_cepnames (df_columns (frame other_world)) False = Inr [''Bellpere'', ''Poasp'', ''Carenigr'']"
    using ex_names by (simp add: other_world_def example_world_def)
  then show ?thesis
    unfolding leaves_output_def
    by (simp add: ex_which ex_exe ex_gfortran ex_program) (simp add: other_world_def)
qed

section \<open>Properties of \<^verbatim>\<open>decorana\<close>\<close>

text \<open>
  C1 (as amended).  A call of \<^verbatim>\<open>decorana\<close> has side effects.  Every call that
  returns has started two processes, the Fortran compiler found on the path and then,
  through the shell, the compiled program with its input redirected from
  \<^verbatim>\<open>params.dat\<close>; and it leaves none of the files \<^verbatim>\<open>decorana.exe\<close>, \<^verbatim>\<open>cep.dat\<close>,
  \<^verbatim>\<open>params.dat\<close>, \<^verbatim>\<open>decorana.out\<close> and \<^verbatim>\<open>decorana.prt\<close> in the working
  directory, whether or not a file of that name was there before the call.
\<close>

theorem decorana_side_effects:
  assumes "decorana env cfg w = (Inr result, w')"
  shows "\<exists>compiler. which env ''gfortran'' = Some compiler \<and>
           procs w' = procs w @ [[compiler, ''-o'', path_div (getcwd env) ''decorana.exe'', ''decorana.f''],
                                 [path_div (getcwd env) ''decorana.exe'' @ '' < params.dat'']] \<and>
           files w' ''decorana.exe'' = None \<and> files w' ''cep.dat'' = None \<and>
           files w' ''params.dat'' = None \<and> files w' ''decorana.out'' = None \<and>
           files w' ''decorana.prt'' = None"
proof -
  obtain site_scores species_scores row_lab col_lab
    where "result = (site_scores, species_scores, row_lab, col_lab)"
    by (cases result)
  with assms have "decorana env cfg w = (Inr (site_scores, species_scores, row_lab, col_lab), w')"
    by simp
  from decorana_Inr [OF this] show ?thesis by blast
qed

text \<open>The theorem at the example run.\<close>

theorem decorana_side_effects_witness:
  "decorana example_env example_config example_world =
     (Inr ([''1 2 3 4\<newline>'', ''5 6 7 8\<newline>''], [[], []], [LStr ''site1'', LInt 2], [''Bellpere'', ''Poasp'', ''Carenigr'']),
      snd (decorana example_env example_config example_world)) \<and>
   (\<exists>compiler. which example_env ''gfortran'' = Some compiler \<and>
      procs (snd (decorana example_env example_config example_world)) =
        procs example_world @
          [[compiler, ''-o'', path_div (getcwd example_env) ''decorana.exe'', ''decorana.f''],
           [path_div (getcwd example_env) ''decorana.exe'' @ '' < params.dat'']] \<and>
      files (snd (decorana example_env example_config example_world)) ''decorana.exe'' = None \<and>
      files (snd (decorana example_env example_config example_world)) ''cep.dat'' = None \<and>
      files (snd (decorana example_env example_config example_world)) ''params.dat'' = None \<and>
      files (snd (decorana example_env example_config example_world)) ''decorana.out'' = None \<and>
      files (snd (decorana example_env example_config example_world)) ''decorana.prt'' = None)"
proof -
  have run: "decorana example_env example_config example_world =
     (Inr ([''1 2 3 4\<newline>'', ''5 6 7 8\<newline>''], [[], []], [LStr ''site1'', LInt 2], [''Bellpere'', ''Poasp'', ''Carenigr'']),
      snd (decorana example_env example_config example_world))"
    using example_result [of example_config] by (simp add: prod_eq_iff)
  from decorana_side_effects [OF run] run show ?thesis by blast
qed

text \<open>
  C1 as stated fails: the example run starts two processes, and the user's file
  \<^verbatim>\<open>params.dat\<close>, which was in the working directory before the call, is gone after it.
\<close>

theorem decorana_side_effects_counterexample:
  "procs example_world = [] \<and>
   procs (snd (decorana example_env example_config example_world)) =
     [[''/usr/bin/gfortran'', ''-o'', ''/home/u/decorana.exe'', ''decorana.f''],
      [''/home/u/decorana.exe < params.dat'']] \<and>
   files example_world ''params.dat'' = Some ''notes'' \<and>
   files (snd (decorana example_env example_config example_world)) ''params.dat'' = None"
proof -
  have run: "decorana example_env example_config example_world =
     (Inr ([''1 2 3 4\<newline>'', ''5 6 7 8\<newline>''], [[], []], [LStr ''site1'', LInt 2], [''Bellpere'', ''Poasp'', ''Carenigr'']),
      snd (decorana example_env example_config example_world))"
    using example_result [of example_config] by (simp add: prod_eq_iff)
  from decorana_Inr [OF run]
  have "files (snd (decorana example_env example_config example_world)) ''params.dat'' = None"
    by blast
  with example_procs [of example_config] show ?thesis
    by (simp add: example_world_def)
qed

text \<open>
  C2 (as amended).  A row of the data frame whose entries are all zero is not rejected.
  When the column names can be abbreviated, \<^verbatim>\<open>__write_cep\<close> returns the shape and the
  labels and writes \<^verbatim>\<open>cep.dat\<close> with no record for that row: the records written are
  those of the rows before it and of the rows after it (its label stays in the block of
  row labels).  And \<^verbatim>\<open>decorana\<close> raises no exception on account of the row: in every run
  in which the compiled program leaves its output, the result of \<^verbatim>\<open>decorana\<close> is what
  \<^verbatim>\<open>genfromtxt\<close> reads from \<^verbatim>\<open>decorana.out\<close>, with the labels.
\<close>

theorem write_cep_skips_zero_row:
  assumes "i < length (df_index (frame w))"
    and "\<forall>j<length (df_columns (frame w)). \<not> ne_zero env (df_iloc (frame w) i j)"
    and "make_cepnames (df_columns (frame w)) False = Inr col_lab"
  shows "write_cep env w =
           (Inr (length (df_index (frame w)), length (df_columns (frame w)), df_index (frame w), col_lab),
            w\<lparr>files := (files w)(''cep.dat'' \<mapsto>
               ''dummy title\<newline>'' @ ''(I3,5(I3,F3.0))\<newline>'' @ (fmt_3d 5 @ '' \<newline>'') @
               concat (map (cep_row env (frame w)) ([0..<i] @ [Suc i..<length (df_index (frame w))])) @
               (fmt_3d 0 @ '' \<newline>'') @
               concat (map (\<lambda>(j, m). m @ (if j mod 10 = 0 then ''\<newline>'' else []))
                           (zip [1..<Suc (length col_lab)] col_lab)) @
               ''\<newline>'' @
               concat (map (\<lambda>(i, m). ljust 8 (py_str m) @ (if i mod 10 = 0 then ''\<newline>'' else []))
                           (zip [1..<Suc (length (df_index (frame w)))] (df_index (frame w)))))\<rparr>) \<and>
         (leaves_output env cfg w out \<longrightarrow>
            fst (decorana env cfg w) =
              (case genfromtxt env (lines_from (universal_newlines out) []) (length (df_index (frame w))) of
                 Inl e \<Rightarrow> Inl e
               | Inr site_scores \<Rightarrow>
                  (case genfromtxt env (map (drop 41) (lines_from (universal_newlines out) []))
                          (length (df_columns (frame w))) of
                     Inl e \<Rightarrow> Inl e
                   | Inr species_scores \<Rightarrow>
                       Inr (site_scores, species_scores, df_index (frame w), col_lab))))"
proof (intro conjI impI)
  show "write_cep env w =
           (Inr (length (df_index (frame w)), length (df_columns (frame w)), df_index (frame w), col_lab),
            w\<lparr>files := (files w)(''cep.dat'' \<mapsto>
               ''dummy title\<newline>'' @ ''(I3,5(I3,F3.0))\<newline>'' @ (fmt_3d 5 @ '' \<newline>'') @
               concat (map (cep_row env (frame w)) ([0..<i] @ [Suc i..<length (df_index (frame w))])) @
               (fmt_3d 0 @ '' \<newline>'') @
               concat (map (\<lambda>(j, m). m @ (if j mod 10 = 0 then ''\<newline>'' else []))
                           (zip [1..<Suc (length col_lab)] col_lab)) @
               ''\<newline>'' @
               concat (map (\<lambda>(i, m). ljust 8 (py_str m) @ (if i mod 10 = 0 then ''\<newline>'' else []))
                           (zip [1..<Suc (length (df_index (frame w)))] (df_index (frame w)))))\<rparr>)"
    by (subst write_cep_ok [OF assms(3)], subst cep_dat_zero_row [OF assms(1,2)]) (rule refl)
next
  assume "leaves_output env cfg w out"
  from leaves_output_result [OF this assms(3)]
  show "fst (decorana env cfg w) =
              (case genfromtxt env (lines_from (universal_newlines out) []) (length (df_index (frame w))) of
                 Inl e \<Rightarrow> Inl e
               | Inr site_scores \<Rightarrow>
                  (case genfromtxt env (map (drop 41) (lines_from (universal_newlines out) []))
                          (length (df_columns (frame w))) of
                     Inl e \<Rightarrow> Inl e
                   | Inr species_scores \<Rightarrow>
                       Inr (site_scores, species_scores, df_index (frame w), col_lab)))" .
qed

text \<open>The theorem at the second row of the example data frame, in the example run.\<close>

theorem write_cep_skips_zero_row_witness:
  "(1::nat) < length (df_index (frame example_world)) \<and>
   length (df_columns (frame example_world)) = 3 \<and>
   \<not> ne_zero example_env (df_iloc (frame example_world) 1 0) \<and>
   \<not> ne_zero example_env (df_iloc (frame example_world) 1 1) \<and>
   \<not> ne_zero example_env (df_iloc (frame example_world) 1 2) \<and>
   make_cepnames (df_columns (frame example_world)) False = Inr [''Bellpere'', ''Poasp'', ''Carenigr''] \<and>
   write_cep example_env example_world =
     (Inr (2, 3, [LStr ''site1'', LInt 2], [''Bellpere'', ''Poasp'', ''Carenigr'']),
      example_world\<lparr>files := (files example_world)(''cep.dat'' \<mapsto>
        ''dummy title\<newline>(I3,5(I3,F3.0))\<newline>  5 \<newline>  1  1  3  3  1\<newline>  0 \<newline>BellperePoaspCarenigr\<newline>site1   2       '')\<rparr>) \<and>
   leaves_output example_env example_config example_world ''1 2 3 4\<newline>5 6 7 8\<newline>'' \<and>
   fst (decorana example_env example_config example_world) =
     Inr ([''1 2 3 4\<newline>'', ''5 6 7 8\<newline>''], [[], []], [LStr ''site1'', LInt 2],
          [''Bellpere'', ''Poasp'', ''Carenigr''])"
proof -
  have i: "(1::nat) < length (df_index (frame example_world))"
    by (simp add: example_world_def example_frame_def)
  have l: "length (df_columns (frame example_world)) = 3"
    by (simp add: example_world_def example_frame_def)
  have z: "\<not> ne_zero example_env (df_iloc (frame example_world) 1 0)"
    "\<not> ne_zero example_env (df_iloc (frame example_world) 1 1)"
    "\<not> ne_zero example_env (df_iloc (frame example_world) 1 2)"
    by (simp_all add: example_env_def example_frame_def example_world_def)
  have zero: "\<forall>j<length (df_columns (frame example_world)).
      \<not> ne_zero example_env (df_iloc (frame example_world) 1 j)"
  proof (intro allI impI)
    fix j assume "j < length (df_columns (frame example_world))"
    with l have "j = 0 \<or> j = 1 \<or> j = 2" by auto
    with z show "\<not> ne_zero example_env (df_iloc (frame example_world) 1 j)" by auto
  qed
  note t = write_cep_skips_zero_row [OF i zero ex_names, of example_config "''1 2 3 4\<newline>5 6 7 8\<newline>''"]
  have content:
    "''dummy title\<newline>'' @ ''(I3,5(I3,F3.0))\<newline>'' @ (fmt_3d 5 @ '' \<newline>'') @
     concat (map (cep_row example_env (frame example_world))
               ([0..<1] @ [Suc 1..<length (df_index (frame example_world))])) @
     (fmt_3d 0 @ '' \<newline>'') @
     concat (map (\<lambda>(j, m). m @ (if j mod 10 = 0 then ''\<newline>'' else []))
               (zip [1..<Suc (length [''Bellpere'', ''Poasp'', ''Carenigr''])]
                    [''Bellpere'', ''Poasp'', ''Carenigr''])) @
     ''\<newline>'' @
     concat (map (\<lambda>(i, m). ljust 8 (py_str m) @ (if i mod 10 = 0 then ''\<newline>'' else []))
               (zip [1..<Suc (length (df_index (frame example_world)))] (df_index (frame example_world)))) =
     ''dummy title\<newline>(I3,5(I3,F3.0))\<newline>  5 \<newline>  1  1  3  3  1\<newline>  0 \<newline>BellperePoaspCarenigr\<newline>site1   2       ''"
    by code_simp
  have eqs: "length (df_index (frame example_world)) = 2"
    "df_index (frame example_world) = [LStr ''site1'', LInt 2]"
    by (simp_all add: example_world_def example_frame_def)
  from t [THEN conjunct1, unfolded content, unfolded eqs l]
  have w: "write_cep example_env example_world =
     (Inr (2, 3, [LStr ''site1'', LInt 2], [''Bellpere'', ''Poasp'', ''Carenigr'']),
      example_world\<lparr>files := (files example_world)(''cep.dat'' \<mapsto>
        ''dummy title\<newline>(I3,5(I3,F3.0))\<newline>  5 \<newline>  1  1  3  3  1\<newline>  0 \<newline>BellperePoaspCarenigr\<newline>site1   2       '')\<rparr>)"
    by simp
  from t [THEN conjunct2, rule_format, OF ex_leaves_output [of example_config], unfolded eqs l ex_lines]
  have d: "fst (decorana example_env example_config example_world) =
     Inr ([''1 2 3 4\<newline>'', ''5 6 7 8\<newline>''], [[], []], [LStr ''site1'', LInt 2],
          [''Bellpere'', ''Poasp'', ''Carenigr''])"
    by (simp add: example_env_def)
  from i l z ex_names w d ex_leaves_output [of example_config] show ?thesis by blast
qed

text \<open>
  C2 as stated fails: the second row and the second column of the example data frame
  are all zero, and the example run returns scores and labels; no exception is raised.
\<close>

theorem decorana_zero_row_counterexample:
  "frame example_world = example_frame \<and>
   length (df_index example_frame) = 2 \<and> length (df_columns example_frame) = 3 \<and>
   \<not> ne_zero example_env (df_iloc example_frame 1 0) \<and>
   \<not> ne_zero example_env (df_iloc example_frame 1 1) \<and>
   \<not> ne_zero example_env (df_iloc example_frame 1 2) \<and>
   \<not> ne_zero example_env (df_iloc example_frame 0 1) \<and>
   fst (decorana example_env example_config example_world) =
     Inr ([''1 2 3 4\<newline>'', ''5 6 7 8\<newline>''], [[], []], [LStr ''site1'', LInt 2],
          [''Bellpere'', ''Poasp'', ''Carenigr''])"
  using example_result [of example_config]
  by (simp add: example_env_def example_frame_def example_world_def)

text \<open>
  C3 (as amended).  When \<^verbatim>\<open>decorana\<close> returns, the site labels are the row labels of
  the data frame, unchanged, and the species labels are the abbreviations that
  \<^verbatim>\<open>__make_cepnames\<close> makes of the column names.
\<close>

theorem decorana_labels_returned:
  assumes "fst (decorana env cfg w) = Inr (site_scores, species_scores, row_lab, col_lab)"
  shows "row_lab = df_index (frame w) \<and> make_cepnames (df_columns (frame w)) False = Inr col_lab"
  using assms by (rule decorana_labels)

text \<open>The theorem at the example run.\<close>

theorem decorana_labels_returned_witness:
  "fst (decorana example_env example_config example_world) =
     Inr ([''1 2 3 4\<newline>'', ''5 6 7 8\<newline>''], [[], []], [LStr ''site1'', LInt 2], [''Bellpere'', ''Poasp'', ''Carenigr'']) \<and>
   [LStr ''site1'', LInt 2] = df_index (frame example_world) \<and>
   make_cepnames (df_columns (frame example_world)) False = Inr [''Bellpere'', ''Poasp'', ''Carenigr'']"
  using decorana_labels_returned [OF example_result [of example_config]]
    example_result [of example_config] by simp

text \<open>
  C3 as stated fails: the species labels returned by the example run are
  \<^verbatim>\<open>Bellpere\<close>, \<^verbatim>\<open>Poasp\<close> and \<^verbatim>\<open>Carenigr\<close>, not the column names
  \<^verbatim>\<open>Bellis perennis\<close>, \<^verbatim>\<open>Poa sp.\<close> and \<^verbatim>\<open>Carex nigra\<close> of the data frame.
\<close>

theorem decorana_labels_counterexample:
  "df_columns (frame example_world) = [''Bellis perennis'', ''Poa sp.'', ''Carex nigra''] \<and>
   fst (decorana example_env example_config example_world) =
     Inr ([''1 2 3 4\<newline>'', ''5 6 7 8\<newline>''], [[], []], [LStr ''site1'', LInt 2], [''Bellpere'', ''Poasp'', ''Carenigr'']) \<and>
   [''Bellpere'', ''Poasp'', ''Carenigr''] \<noteq> [''Bellis perennis'', ''Poa sp.'', ''Carex nigra'']"
  using example_result [of example_config]
  by (simp add: example_world_def example_frame_def)

text \<open>
  C4 (as amended).  \<^verbatim>\<open>decorana\<close> fails with the exception "GNU Fortran compiler is not
  installed!" whenever no \<^verbatim>\<open>gfortran\<close> is found on the path (and then nothing has been
  changed); with "Compilation of decorana.f failed!" whenever the compiler exits with a
  code other than 0; and, when the compilation succeeds and the column names can be
  abbreviated, with "decorana.exe exited with code N!" whenever the compiled program
  exits with a code N other than 0.
\<close>

theorem decorana_external_errors:
  "(which env ''gfortran'' = None \<longrightarrow>
      decorana env cfg w = (Inl (Exception ''GNU Fortran compiler is not installed!''), w)) \<and>
   (\<forall>compiler. which env ''gfortran'' = Some compiler \<longrightarrow>
      fst (subprocess env [compiler, ''-o'', path_div (getcwd env) ''decorana.exe'', ''decorana.f''] (files w)) \<noteq> 0 \<longrightarrow>
      fst (decorana env cfg w) = Inl (Exception ''Compilation of decorana.f failed!'')) \<and>
   (\<forall>compiler col_lab rc.
      which env ''gfortran'' = Some compiler \<longrightarrow>
      fst (subprocess env [compiler, ''-o'', path_div (getcwd env) ''decorana.exe'', ''decorana.f''] (files w)) = 0 \<longrightarrow>
      make_cepnames (df_columns (frame w)) False = Inr col_lab \<longrightarrow>
      fst (subprocess env [path_div (getcwd env) ''decorana.exe'' @ '' < params.dat'']
             ((snd (subprocess env [compiler, ''-o'', path_div (getcwd env) ''decorana.exe'', ''decorana.f''] (files w)))
              (''cep.dat'' \<mapsto> cep_dat env (frame w) (df_index (frame w)) col_lab,
               ''params.dat'' \<mapsto> params_dat cfg))) = rc \<longrightarrow>
      rc \<noteq> 0 \<longrightarrow>
      fst (decorana env cfg w) = Inl (Exception (''decorana.exe exited with code '' @ str_int rc @ ''!'')))"
proof (intro conjI allI impI)
  assume "which env ''gfortran'' = None"
  from compile_fortran_missing [OF this]
  show "decorana env cfg w = (Inl (Exception ''GNU Fortran compiler is not installed!''), w)"
    by (simp add: decorana_def and_then_def)
next
  fix compiler
  assume "which env ''gfortran'' = Some compiler"
    and "fst (subprocess env [compiler, ''-o'', path_div (getcwd env) ''decorana.exe'', ''decorana.f''] (files w)) \<noteq> 0"
  then show "fst (decorana env cfg w) = Inl (Exception ''Compilation of decorana.f failed!'')"
    by (rule decorana_compile_failed)
next
  fix compiler col_lab rc
  assume w: "which env ''gfortran'' = Some compiler"
    and c: "fst (subprocess env [compiler, ''-o'', path_div (getcwd env) ''decorana.exe'', ''decorana.f''] (files w)) = 0"
    and n: "make_cepnames (df_columns (frame w)) False = Inr col_lab"
    and r: "fst (subprocess env [path_div (getcwd env) ''decorana.exe'' @ '' < params.dat'']
             ((snd (subprocess env [compiler, ''-o'', path_div (getcwd env) ''decorana.exe'', ''decorana.f''] (files w)))
              (''cep.dat'' \<mapsto> cep_dat env (frame w) (df_index (frame w)) col_lab,
               ''params.dat'' \<mapsto> params_dat cfg))) = rc"
    and nz: "rc \<noteq> 0"
  obtain fs where "subprocess env [path_div (getcwd env) ''decorana.exe'' @ '' < params.dat'']
             ((snd (subprocess env [compiler, ''-o'', path_div (getcwd env) ''decorana.exe'', ''decorana.f''] (files w)))
              (''cep.dat'' \<mapsto> cep_dat env (frame w) (df_index (frame w)) col_lab,
               ''params.dat'' \<mapsto> params_dat cfg)) = (rc, fs)"
    using r by (metis prod.collapse)
  from decorana_outcome(1) [OF w c n this nz]
  show "fst (decorana env cfg w) = Inl (Exception (''decorana.exe exited with code '' @ str_int rc @ ''!''))" .
qed

text \<open>
  The theorem on the machine without a compiler, in the empty working directory and on
  the machine whose compiled program exits with code 2.
\<close>

theorem decorana_external_errors_witness:
  "which no_compiler_env ''gfortran'' = None \<and>
   decorana no_compiler_env example_config example_world =
     (Inl (Exception ''GNU Fortran compiler is not installed!''), example_world) \<and>
   which example_env ''gfortran'' = Some ''/usr/bin/gfortran'' \<and>
   fst (subprocess example_env
     [''/usr/bin/gfortran'', ''-o'', path_div (getcwd example_env) ''decorana.exe'', ''decorana.f'']
     (files empty_world)) = 1 \<and>
   fst (decorana example_env example_config empty_world) =
     Inl (Exception ''Compilation of decorana.f failed!'') \<and>
   which crashing_env ''gfortran'' = Some ''/usr/bin/gfortran'' \<and>
   fst (subprocess crashing_env
     [''/usr/bin/gfortran'', ''-o'', path_div (getcwd crashing_env) ''decorana.exe'', ''decorana.f'']
     (files example_world)) = 0 \<and>
   fst (subprocess crashing_env [path_div (getcwd crashing_env) ''decorana.exe'' @ '' < params.dat'']
     ((snd (subprocess crashing_env
         [''/usr/bin/gfortran'', ''-o'', path_div (getcwd crashing_env) ''decorana.exe'', ''decorana.f'']
         (files example_world)))
      (''cep.dat'' \<mapsto> cep_dat crashing_env (frame example_world) (df_index (frame example_world))
                       [''Bellpere'', ''Poasp'', ''Carenigr''],
       ''params.dat'' \<mapsto> params_dat example_config))) = 2 \<and>
   fst (decorana crashing_env example_config example_world) =
     Inl (Exception (''decorana.exe exited with code '' @ str_int 2 @ ''!''))"
proof -
  have a: "which no_compiler_env ''gfortran'' = None"
    by (simp add: no_compiler_env_def)
  have b: "fst (subprocess example_env
     [''/usr/bin/gfortran'', ''-o'', path_div (getcwd example_env) ''decorana.exe'', ''decorana.f'']
     (files empty_world)) = 1"
    by (simp add: ex_exe ex_gfortran empty_world_def)
  have c: "which crashing_env ''gfortran'' = Some ''/usr/bin/gfortran''"
    by (simp add: crashing_env_def example_env_def)
  have e: "path_div (getcwd crashing_env) ''decorana.exe'' = ''/home/u/decorana.exe''"
    by (simp add: crashing_env_def example_env_def path_div_def)
  have d: "fst (subprocess crashing_env
     [''/usr/bin/gfortran'', ''-o'', path_div (getcwd crashing_env) ''decorana.exe'', ''decorana.f'']
     (files example_world)) = 0"
    by (simp add: e) (simp add: crashing_env_def)
  have r: "fst (subprocess crashing_env [path_div (getcwd crashing_env) ''decorana.exe'' @ '' < params.dat'']
     ((snd (subprocess crashing_env
         [''/usr/bin/gfortran'', ''-o'', path_div (getcwd crashing_env) ''decorana.exe'', ''decorana.f'']
         (files example_world)))
      (''cep.dat'' \<mapsto> cep_dat crashing_env (frame example_world) (df_index (frame example_world))
                       [''Bellpere'', ''Poasp'', ''Carenigr''],
       ''params.dat'' \<mapsto> params_dat example_config))) = 2"
    by (simp add: e) (simp add: crashing_env_def)
  have 1: "decorana no_compiler_env example_config example_world =
     (Inl (Exception ''GNU Fortran compiler is not installed!''), example_world)"
    using decorana_external_errors [of no_compiler_env example_config example_world] a by blast
  have 2: "fst (decorana example_env example_config empty_world) =
     Inl (Exception ''Compilation of decorana.f failed!'')"
    using decorana_external_errors [of example_env example_config empty_world] ex_which b by simp
  have 3: "fst (decorana crashing_env example_config example_world) =
     Inl (Exception (''decorana.exe exited with code '' @ str_int 2 @ ''!''))"
    using decorana_external_errors [of crashing_env example_config example_world] c d ex_names r
    by simp
  from a b c d r 1 2 3 ex_which show ?thesis by blast
qed

text \<open>
  C4 as stated fails: each of the three exceptions is raised by a call, on the machine
  without a compiler, in the empty working directory and on the machine whose compiled
  program exits with code 2.
\<close>

theorem decorana_external_errors_counterexample:
  "fst (decorana no_compiler_env example_config example_world) =
     Inl (Exception ''GNU Fortran compiler is not installed!'') \<and>
   fst (decorana example_env example_config empty_world) =
     Inl (Exception ''Compilation of decorana.f failed!'') \<and>
   fst (decorana crashing_env example_config example_world) =
     Inl (Exception ''decorana.exe exited with code 2!'')"
  by (simp add: no_compiler_result empty_world_result crashing_result)

text \<open>
  C7 (as amended).  The configuration is not validated.  Whatever the values of the
  configuration, when the compiler is found, the compilation exits with code 0 and the
  column names can be abbreviated, \<^verbatim>\<open>decorana\<close> writes the configuration to
  \<^verbatim>\<open>params.dat\<close> and starts the compiled program in the working directory \<open>start\<close>
  that holds this file: the processes started by the call are the compiler and the
  compiled program; apart from the five files that \<^verbatim>\<open>decorana\<close> removes, the files after
  the call are the files that the program leaves when it is started in \<open>start\<close>; and
  when the program started in \<open>start\<close> exits with a code other than 0, the call raises the
  exception that reports this code.
\<close>

theorem decorana_config_not_validated:
  assumes which: "which env ''gfortran'' = Some compiler"
    and rc: "fst (subprocess env [compiler, ''-o'', path_div (getcwd env) ''decorana.exe'', ''decorana.f''] (files w)) = 0"
    and names: "make_cepnames (df_columns (frame w)) False = Inr col_lab"
    and start: "start = (snd (subprocess env [compiler, ''-o'', path_div (getcwd env) ''decorana.exe'', ''decorana.f''] (files w)))
                  (''cep.dat'' \<mapsto> cep_dat env (frame w) (df_index (frame w)) col_lab,
                   ''params.dat'' \<mapsto> params_dat cfg)"
  shows "start ''params.dat'' = Some (params_dat cfg) \<and>
         procs (snd (decorana env cfg w)) =
           procs w @ [[compiler, ''-o'', path_div (getcwd env) ''decorana.exe'', ''decorana.f''],
                      [path_div (getcwd env) ''decorana.exe'' @ '' < params.dat'']] \<and>
         (\<forall>p. p \<notin> {''decorana.exe'', ''cep.dat'', ''params.dat'', ''decorana.out'', ''decorana.prt''} \<longrightarrow>
              files (snd (decorana env cfg w)) p =
              snd (subprocess env [path_div (getcwd env) ''decorana.exe'' @ '' < params.dat''] start) p) \<and>
         (fst (subprocess env [path_div (getcwd env) ''decorana.exe'' @ '' < params.dat''] start) \<noteq> 0 \<longrightarrow>
            fst (decorana env cfg w) =
              Inl (Exception (''decorana.exe exited with code '' @
                     str_int (fst (subprocess env [path_div (getcwd env) ''decorana.exe'' @ '' < params.dat''] start)) @
                     ''!'')))"
proof (intro conjI allI impI)
  show "start ''params.dat'' = Some (params_dat cfg)"
    by (simp add: start)
  show "procs (snd (decorana env cfg w)) =
           procs w @ [[compiler, ''-o'', path_div (getcwd env) ''decorana.exe'', ''decorana.f''],
                      [path_div (getcwd env) ''decorana.exe'' @ '' < params.dat'']]"
    using which rc names by (rule decorana_started)
next
  fix p
  assume "p \<notin> {''decorana.exe'', ''cep.dat'', ''params.dat'', ''decorana.out'', ''decorana.prt''}"
  from decorana_other_files [OF which rc names this, of cfg]
  show "files (snd (decorana env cfg w)) p =
        snd (subprocess env [path_div (getcwd env) ''decorana.exe'' @ '' < params.dat''] start) p"
    unfolding start .
next
  assume nz: "fst (subprocess env [path_div (getcwd env) ''decorana.exe'' @ '' < params.dat''] start) \<noteq> 0"
  obtain rc' fs where run: "subprocess env [path_div (getcwd env) ''decorana.exe'' @ '' < params.dat''] start = (rc', fs)"
    by (metis prod.collapse)
  with nz have "rc' \<noteq> 0" by simp
  from decorana_outcome(1) [OF which rc names run [unfolded start] this] run
  show "fst (decorana env cfg w) =
          Inl (Exception (''decorana.exe exited with code '' @
                 str_int (fst (subprocess env [path_div (getcwd env) ''decorana.exe'' @ '' < params.dat''] start)) @
                 ''!''))"
    by simp
qed

text \<open>
  The theorem at the example run, whose number of segments is \<open>- 3\<close>, and on the machine
  whose compiled program exits with code 2.
\<close>

theorem decorana_config_not_validated_witness:
  "which example_env ''gfortran'' = Some ''/usr/bin/gfortran'' \<and>
   fst (subprocess example_env
     [''/usr/bin/gfortran'', ''-o'', path_div (getcwd example_env) ''decorana.exe'', ''decorana.f'']
     (files example_world)) = 0 \<and>
   make_cepnames (df_columns (frame example_world)) False = Inr [''Bellpere'', ''Poasp'', ''Carenigr''] \<and>
   mk example_config = - 3 \<and>
   params_dat example_config =
     ''cep.dat\<newline>        -1\<newline>        0\<newline>        0\<newline>        0\<newline>        0\<newline>        -3\<newline>        0\<newline>        1\<newline>        0\<newline>        '' \<and>
   procs (snd (decorana example_env example_config example_world)) =
     procs example_world @
       [[''/usr/bin/gfortran'', ''-o'', path_div (getcwd example_env) ''decorana.exe'', ''decorana.f''],
        [path_div (getcwd example_env) ''decorana.exe'' @ '' < params.dat'']] \<and>
   files (snd (decorana example_env example_config example_world)) ''decorana.f'' =
     Some ''      PROGRAM DECORANA'' \<and>
   which crashing_env ''gfortran'' = Some ''/usr/bin/gfortran'' \<and>
   fst (subprocess crashing_env
     [''/usr/bin/gfortran'', ''-o'', path_div (getcwd crashing_env) ''decorana.exe'', ''decorana.f'']
     (files example_world)) = 0 \<and>
   fst (decorana crashing_env example_config example_world) =
     Inl (Exception ''decorana.exe exited with code 2!'')"
proof -
  have pd: "params_dat example_config =
     ''cep.dat\<newline>        -1\<newline>        0\<newline>        0\<newline>        0\<newline>        0\<newline>        -3\<newline>        0\<newline>        1\<newline>        0\<newline>        ''"
    by code_simp
  note t = decorana_config_not_validated [OF ex_which ex_compiled ex_names refl, of example_config]
  note p = t [THEN conjunct2, THEN conjunct1]
  have n: "''decorana.f'' \<notin> {''decorana.exe'', ''cep.dat'', ''params.dat'', ''decorana.out'', ''decorana.prt''}"
    by simp
  have s: "snd (subprocess example_env [path_div (getcwd example_env) ''decorana.exe'' @ '' < params.dat'']
       ((snd (subprocess example_env
           [''/usr/bin/gfortran'', ''-o'', path_div (getcwd example_env) ''decorana.exe'', ''decorana.f'']
           (files example_world)))
        (''cep.dat'' \<mapsto> cep_dat example_env (frame example_world) (df_index (frame example_world))
                         [''Bellpere'', ''Poasp'', ''Carenigr''],
         ''params.dat'' \<mapsto> params_dat example_config))) ''decorana.f'' = Some ''      PROGRAM DECORANA''"
    unfolding ex_exe by (simp add: ex_gfortran ex_program example_world_def)
  note f = t [THEN conjunct2, THEN conjunct2, THEN conjunct1, rule_format, OF n, unfolded s]
  have c: "which crashing_env ''gfortran'' = Some ''/usr/bin/gfortran''"
    by (simp add: crashing_env_def example_env_def)
  have e: "path_div (getcwd crashing_env) ''decorana.exe'' = ''/home/u/decorana.exe''"
    by (simp add: crashing_env_def example_env_def path_div_def)
  have d: "fst (subprocess crashing_env
     [''/usr/bin/gfortran'', ''-o'', path_div (getcwd crashing_env) ''decorana.exe'', ''decorana.f'']
     (files example_world)) = 0"
    by (simp add: e) (simp add: crashing_env_def)
  have r: "fst (subprocess crashing_env [path_div (getcwd crashing_env) ''decorana.exe'' @ '' < params.dat''] fs) = 2" for fs
    by (simp add: e) (simp add: crashing_env_def)
  have two: "''decorana.exe exited with code '' @ str_int 2 @ ''!'' = ''decorana.exe exited with code 2!''"
    by code_simp
  note u = decorana_config_not_validated [OF c d ex_names refl, of example_config]
  from u [THEN conjunct2, THEN conjunct2, THEN conjunct2, unfolded r]
  have x: "fst (decorana crashing_env example_config example_world) =
     Inl (Exception ''decorana.exe exited with code 2!'')"
    unfolding two by simp
  have m: "mk example_config = - 3"
    by (simp add: example_config_def)
  from ex_which ex_compiled ex_names m pd p f c d x show ?thesis
    by (intro conjI)
qed

text \<open>
  C7 as stated fails: the example configuration has \<open>- 3\<close> segments, and the example
  run returns scores and labels; no exception is raised.
\<close>

theorem decorana_config_counterexample:
  "mk example_config = - 3 \<and>
   fst (decorana example_env example_config example_world) =
     Inr ([''1 2 3 4\<newline>'', ''5 6 7 8\<newline>''], [[], []], [LStr ''site1'', LInt 2], [''Bellpere'', ''Poasp'', ''Carenigr''])"
  using example_result [of example_config] by (simp add: example_config_def)

text \<open>
  C8 (as amended).  Two calls of \<^verbatim>\<open>decorana\<close> on the same data frame with the same
  configuration on the same machine, from working directories that may differ, give
  the same output whenever in both calls the compiled program leaves its output with
  the same text in \<^verbatim>\<open>decorana.out\<close>: the output of both is what \<^verbatim>\<open>genfromtxt\<close> reads
  from that text (the site scores from the lines, the species scores from the lines
  without their first 41 characters, or the exception of \<^verbatim>\<open>genfromtxt\<close>), with the row
  labels and the abbreviated column names.  And whatever the machines, the
  configurations and the files, two calls on the same data frame that both return give
  the same site labels and the same species labels.
\<close>

theorem decorana_deterministic:
  assumes "frame w1 = frame w2"
  shows "(leaves_output env cfg w1 out \<longrightarrow> leaves_output env cfg w2 out \<longrightarrow>
            fst (decorana env cfg w1) = fst (decorana env cfg w2) \<and>
            (\<exists>col_lab. make_cepnames (df_columns (frame w1)) False = Inr col_lab \<and>
               fst (decorana env cfg w1) =
                 (case genfromtxt env (lines_from (universal_newlines out) []) (length (df_index (frame w1))) of
                    Inl e \<Rightarrow> Inl e
                  | Inr site_scores \<Rightarrow>
                     (case genfromtxt env (map (drop 41) (lines_from (universal_newlines out) []))
                             (length (df_columns (frame w1))) of
                        Inl e \<Rightarrow> Inl e
                      | Inr species_scores \<Rightarrow>
                          Inr (site_scores, species_scores, df_index (frame w1), col_lab))))) \<and>
         (\<forall>s1 p1 r1 c1 s2 p2 r2 c2.
            fst (decorana env1 cfg1 w1) = Inr (s1, p1, r1, c1) \<longrightarrow>
            fst (decorana env2 cfg2 w2) = Inr (s2, p2, r2, c2) \<longrightarrow> r1 = r2 \<and> c1 = c2)"
proof (intro conjI allI impI)
  assume 1: "leaves_output env cfg w1 out" and 2: "leaves_output env cfg w2 out"
  from leaves_output_names [OF 1] obtain col_lab where
    n1: "make_cepnames (df_columns (frame w1)) False = Inr col_lab" by blast
  with assms have n2: "make_cepnames (df_columns (frame w2)) False = Inr col_lab" by simp
  note r1 = leaves_output_result [OF 1 n1] and r2 = leaves_output_result [OF 2 n2]
  from r1 [unfolded assms] r2 show "fst (decorana env cfg w1) = fst (decorana env cfg w2)"
    by (rule trans [OF _ sym])
  from n1 r1 show "\<exists>col_lab. make_cepnames (df_columns (frame w1)) False = Inr col_lab \<and>
               fst (decorana env cfg w1) =
                 (case genfromtxt env (lines_from (universal_newlines out) []) (length (df_index (frame w1))) of
                    Inl e \<Rightarrow> Inl e
                  | Inr site_scores \<Rightarrow>
                     (case genfromtxt env (map (drop 41) (lines_from (universal_newlines out) []))
                             (length (df_columns (frame w1))) of
                        Inl e \<Rightarrow> Inl e
                      | Inr species_scores \<Rightarrow>
                          Inr (site_scores, species_scores, df_index (frame w1), col_lab)))"
    by blast
next
  fix s1 p1 r1 c1 s2 p2 r2 c2
  assume 1: "fst (decorana env1 cfg1 w1) = Inr (s1, p1, r1, c1)"
    and 2: "fst (decorana env2 cfg2 w2) = Inr (s2, p2, r2, c2)"
  from decorana_labels [OF 1] decorana_labels [OF 2] assms
  show "r1 = r2" and "c1 = c2" by simp_all
qed

text \<open>
  The theorem at the example working directory and at another working directory, which
  holds other files and has seen another process.
\<close>

theorem decorana_deterministic_witness:
  "frame example_world = frame other_world \<and>
   files example_world ''params.dat'' = Some ''notes'' \<and>
   files other_world ''params.dat'' = None \<and>
   leaves_output example_env example_config example_world ''1 2 3 4\<newline>5 6 7 8\<newline>'' \<and>
   leaves_output example_env example_config other_world ''1 2 3 4\<newline>5 6 7 8\<newline>'' \<and>
   fst (decorana example_env example_config example_world) =
   fst (decorana example_env example_config other_world) \<and>
   fst (decorana example_env example_config other_world) =
     Inr ([''1 2 3 4\<newline>'', ''5 6 7 8\<newline>''], [[], []], [LStr ''site1'', LInt 2],
          [''Bellpere'', ''Poasp'', ''Carenigr''])"
proof -
  have f: "frame example_world = frame other_world"
    by (simp add: example_world_def other_world_def)
  have g: "files example_world ''params.dat'' = Some ''notes''" "files other_world ''params.dat'' = None"
    by (simp_all add: example_world_def other_world_def)
  note a = ex_leaves_output [of example_config] and b = other_leaves_output [of example_config]
  note e = decorana_deterministic [OF f, of example_env example_config "''1 2 3 4\<newline>5 6 7 8\<newline>''",
      THEN conjunct1, rule_format, OF a b, THEN conjunct1]
  have v: "fst (decorana example_env example_config other_world) =
     Inr ([''1 2 3 4\<newline>'', ''5 6 7 8\<newline>''], [[], []], [LStr ''site1'', LInt 2],
          [''Bellpere'', ''Poasp'', ''Carenigr''])"
    unfolding e [symmetric] by (rule example_result)
  from f g a b e v show ?thesis by (intro conjI)
qed

text \<open>
  C8 as stated fails: on the same machine, with the same data frame and the same
  configuration, the call returns scores and labels from the example working directory
  and raises an exception from an empty working directory.
\<close>

theorem decorana_working_directory_counterexample:
  "frame empty_world = frame example_world \<and>
   fst (decorana example_env example_config example_world) =
     Inr ([''1 2 3 4\<newline>'', ''5 6 7 8\<newline>''], [[], []], [LStr ''site1'', LInt 2], [''Bellpere'', ''Poasp'', ''Carenigr'']) \<and>
   fst (decorana example_env example_config empty_world) =
     Inl (Exception ''Compilation of decorana.f failed!'')"
  by (simp add: example_result empty_world_result) (simp add: empty_world_def)

text \<open>
  C9.  The caller's data frame after a call of \<^verbatim>\<open>decorana\<close> is the data frame before
  the call, whether the call returns or raises.
\<close>

theorem decorana_keeps_data_frame: "frame (snd (decorana env cfg w)) = frame w"
  unfolding decorana_def
  by (intro frame_and_then frame_case_prod frame_compile_fortran frame_write_cep
      frame_write_text frame_subprocess_run frame_guard frame_os_remove frame_readlines
      frame_lift frame_return)

end
